theory Spec2Isabelle
  imports Main "HOL-Library.Multiset"
begin

section \<open>The deploy and monitor routes of the RiskGuard backend\<close>

text \<open>
  This theory embeds the monitoring routes of \<^verbatim>\<open>src/backend/routes/deploy.js\<close>:
  the three module-level maps, the start route \<^verbatim>\<open>POST /start-realtime-monitor\<close> with
  the listeners it registers on the spawned watcher process, the poll route
  \<^verbatim>\<open>GET /monitor-updates/:agentId\<close> and the first \<^verbatim>\<open>POST /stop-monitoring\<close> route.
  Every handler is a function from the state of the module to its new state (and a reply
  where the handler answers a request); the start route also takes and returns the file
  system. Line numbers refer to that file.
\<close>

subsection \<open>JavaScript library functions used by the routes\<close>

text \<open>
  \<^verbatim>\<open>Array.prototype.slice(start)\<close> with one argument: a negative \<open>start\<close> counts from
  the end and is clamped at 0, a \<open>start\<close> beyond the length gives the empty array.
\<close>

definition slice_from :: "int \<Rightarrow> 'a list \<Rightarrow> 'a list" where
  "slice_from start xs =
     (let n = int (length xs);
          k = (if start < 0 then max (n + start) 0 else min start n)
      in drop (nat k) xs)"


text \<open>
  Strings. A JavaScript string is modelled by the list of the bytes of its UTF-8 encoding:
  splitting at the line feed, searching a substring and matching an ASCII digit give the
  same answers on the bytes as on the UTF-16 code units.
\<close>

fun starts_with :: "string \<Rightarrow> string \<Rightarrow> bool" where
  "starts_with s [] = True"
| "starts_with [] (p # ps) = False"
| "starts_with (c # s) (p # ps) = (c = p \<and> starts_with s ps)"

text \<open>
  The white space of the language, which \<^verbatim>\<open>trim\<close> removes and \<^verbatim>\<open>\s\<close> matches: the
  code points U+0009 to U+000D, U+0020, U+00A0, U+1680, U+2000 to U+200A, U+2028, U+2029,
  U+202F, U+205F, U+3000 and U+FEFF, each as the bytes of its encoding.
\<close>

definition white_space :: "string list" where
  "white_space =
     [ [CHR 0x09], [CHR 0x0A], [CHR 0x0B], [CHR 0x0C], [CHR 0x0D], [CHR 0x20],
       [CHR 0xC2, CHR 0xA0],
       [CHR 0xE1, CHR 0x9A, CHR 0x80],
       [CHR 0xE2, CHR 0x80, CHR 0x80], [CHR 0xE2, CHR 0x80, CHR 0x81],
       [CHR 0xE2, CHR 0x80, CHR 0x82], [CHR 0xE2, CHR 0x80, CHR 0x83],
       [CHR 0xE2, CHR 0x80, CHR 0x84], [CHR 0xE2, CHR 0x80, CHR 0x85],
       [CHR 0xE2, CHR 0x80, CHR 0x86], [CHR 0xE2, CHR 0x80, CHR 0x87],
       [CHR 0xE2, CHR 0x80, CHR 0x88], [CHR 0xE2, CHR 0x80, CHR 0x89],
       [CHR 0xE2, CHR 0x80, CHR 0x8A],
       [CHR 0xE2, CHR 0x80, CHR 0xA8], [CHR 0xE2, CHR 0x80, CHR 0xA9],
       [CHR 0xE2, CHR 0x80, CHR 0xAF],
       [CHR 0xE2, CHR 0x81, CHR 0x9F],
       [CHR 0xE3, CHR 0x80, CHR 0x80],
       [CHR 0xEF, CHR 0xBB, CHR 0xBF] ]"

text \<open>
  The string without the characters of \<open>spaces\<close> that it starts with: while one of the
  given encodings is at the front, it is removed.
\<close>

function skip_spaces :: "string list \<Rightarrow> string \<Rightarrow> string" where
  "skip_spaces spaces s =
     (case find (\<lambda>w. w \<noteq> [] \<and> starts_with s w) spaces of
        None \<Rightarrow> s
      | Some w \<Rightarrow> skip_spaces spaces (drop (length w) s))"
  by pat_completeness auto

termination
proof (relation "measure (\<lambda>(spaces, s). length s)")
  show "wf (measure (\<lambda>(spaces, s). length s))" by simp
next
  fix spaces :: "string list" and s w :: string
  assume "find (\<lambda>w. w \<noteq> [] \<and> starts_with s w) spaces = Some w"
  then have w: "w \<noteq> []" and sw: "starts_with s w"
    by (auto simp: find_Some_iff)
  from w sw have "s \<noteq> []" by (cases s; cases w) auto
  with w show "((spaces, drop (length w) s), (spaces, s)) \<in> measure (\<lambda>(spaces, s). length s)"
    by simp
qed

declare skip_spaces.simps [simp del]

definition is_digit :: "char \<Rightarrow> bool" where
  "is_digit c = (c \<in> set ''0123456789'')"

definition is_digit_or_dot :: "char \<Rightarrow> bool" where
  "is_digit_or_dot c = (is_digit c \<or> c = CHR ''.'')"

text \<open>\<^verbatim>\<open>String.prototype.trim\<close>: the white space at the front is removed, then the white
  space at the end, which is found at the front of the reversed string as the reversed
  encodings.\<close>

definition js_trim :: "string \<Rightarrow> string" where
  "js_trim s = rev (skip_spaces (map rev white_space) (rev (skip_spaces white_space s)))"

text \<open>\<^verbatim>\<open>String.prototype.includes\<close>: the pattern occurs at some position.\<close>

fun js_includes :: "string \<Rightarrow> string \<Rightarrow> bool" where
  "js_includes [] pat = starts_with [] pat"
| "js_includes (c # s) pat = (starts_with (c # s) pat \<or> js_includes s pat)"

text \<open>\<^verbatim>\<open>String.prototype.split\<close> at a one-character separator: the pieces between the
  separators, the empty ones included; the string without separator is its only piece.\<close>

fun split_acc :: "char \<Rightarrow> string \<Rightarrow> string \<Rightarrow> string list" where
  "split_acc sep acc [] = [rev acc]"
| "split_acc sep acc (c # s) =
     (if c = sep then rev acc # split_acc sep [] s else split_acc sep (c # acc) s)"

definition split_on :: "char \<Rightarrow> string \<Rightarrow> string list" where
  "split_on sep s = split_acc sep [] s"

text \<open>
  \<^verbatim>\<open>line.match(/KEY\s*(C+)/)\<close> for a literal \<open>KEY\<close> and a class \<open>C\<close> of ASCII
  characters that are no white space: the leftmost position where \<open>KEY\<close>, any white
  space and at least one character of the class follow each other; the result is the
  captured group, the longest run of class characters there.
\<close>

fun regex_capture :: "string \<Rightarrow> (char \<Rightarrow> bool) \<Rightarrow> string \<Rightarrow> string option" where
  "regex_capture key cls [] = None"
| "regex_capture key cls (c # s) =
     (let grp = takeWhile cls (skip_spaces white_space (drop (length key) (c # s)))
      in if starts_with (c # s) key \<and> grp \<noteq> [] then Some grp
         else regex_capture key cls s)"

text \<open>
  \<^verbatim>\<open>obj[key] = value\<close> on an object whose keys are kept in insertion order: an
  existing key keeps its place. \<^verbatim>\<open>Map.prototype.set\<close> behaves the same way.
\<close>

fun assign :: "'k \<Rightarrow> 'v \<Rightarrow> ('k \<times> 'v) list \<Rightarrow> ('k \<times> 'v) list" where
  "assign k v [] = [(k, v)]"
| "assign k v ((k', v') # kvs) =
     (if k = k' then (k, v) # kvs else (k', v') # assign k v kvs)"

text \<open>\<^verbatim>\<open>Map.prototype.delete\<close>\<close>

definition remove_key :: "'k \<Rightarrow> ('k \<times> 'v) list \<Rightarrow> ('k \<times> 'v) list" where
  "remove_key k kvs = filter (\<lambda>kv. fst kv \<noteq> k) kvs"

subsection \<open>Updates and the state of the module\<close>

type_synonym agent_id = string
type_synonym timestamp = string

text \<open>
  The value stored for a metric is \<^verbatim>\<open>parseInt(match[1])\<close> or
  \<^verbatim>\<open>parseFloat(match[1])\<close>; the conversion of the captured text to an IEEE double is
  kept symbolic, so a value is the conversion that was applied together with the captured
  text.
\<close>

datatype num = ParseInt string | ParseFloat string

datatype field =
    F_loc | F_complexity | F_dependencies | F_functions | F_classes | F_comments
  | F_complexity_per_loc | F_comment_ratio | F_functions_per_class

type_synonym metrics = "(field \<times> num) list"

text \<open>
  What the property \<^verbatim>\<open>message\<close> of a decoded JSON value is: absent or
  \<^verbatim>\<open>null\<close>, a string, or a value of another type (a number, a boolean, an array, an
  object).
\<close>

datatype json_message = No_message | String_message | Other_message

text \<open>
  The objects pushed on an agent's update array, by their \<^verbatim>\<open>type\<close> field:
  \<^item> \<open>Structured line message t a loc\<close> is
    \<^verbatim>\<open>{...JSON.parse(line), timestamp, agentId, deployedLocation}\<close> (lines 302 to 307),
    kept as the line it was decoded from and what its \<^verbatim>\<open>message\<close> is;
  \<^item> \<open>ConsoleOutput message t a loc metrics\<close> is the \<^verbatim>\<open>console_output\<close> object of
    lines 311 to 325;
  \<^item> \<open>ErrorUpdate message t a\<close> is the \<^verbatim>\<open>error\<close> object of lines 344 to 349 and
    373 to 378;
  \<^item> \<open>MonitorStopped code t a\<close> is the \<^verbatim>\<open>monitor_stopped\<close> object of lines 359 to
    364, whose message is \<^verbatim>\<open>Process exited with code\<close> followed by the code.
\<close>

datatype update =
    Structured string json_message timestamp agent_id string
  | ConsoleOutput string timestamp agent_id string "metrics option"
  | ErrorUpdate string timestamp agent_id
  | MonitorStopped "int option" timestamp agent_id

datatype signal = SIGTERM | SIGKILL

text \<open>
  The \<^verbatim>\<open>ChildProcess\<close> object returned by \<^verbatim>\<open>spawn\<close>. \<open>killed\<close> is the
  property of that name; \<open>exited\<close> says that the operating-system process is gone;
  \<open>signals\<close> lists the signals delivered to it so far.
\<close>

record child_process =
  command :: string
  arguments :: "string list"
  killed :: bool
  exited :: bool
  signals :: "signal list"

text \<open>The entry of \<^verbatim>\<open>activeMonitors\<close> (lines 383 to 389). The process is held by
  reference: the entry names the process of the same agent in \<open>processes\<close> below.\<close>

record monitor =
  folderPath :: string
  projectName :: string
  deployedFiles :: "string list"
  startTime :: timestamp

text \<open>The variables captured by the listeners of one start request (lines 214, 215 and
  the resolved folder).\<close>

record listener_state =
  processStarted :: bool
  bufferLines :: "string list"
  deployedLocation :: string

text \<open>
  The module state. \<^verbatim>\<open>activeMonitors\<close> is iterated in insertion order by the stop route,
  so it is an association list; the other two maps are only looked up by key.
  \<open>processes\<close> is the store of the spawned process objects and \<open>listeners\<close> the
  closures registered on them, both keyed by the agent they were created for.
  \<open>kill_timers\<close> lists the agents for which the stop route has armed its 5000 ms timer.
\<close>

record server =
  activeMonitors :: "(agent_id \<times> monitor) list"
  monitorUpdates :: "agent_id \<rightharpoonup> update list"
  sentUpdateIndices :: "agent_id \<rightharpoonup> int"
  processes :: "agent_id \<rightharpoonup> child_process"
  listeners :: "agent_id \<rightharpoonup> listener_state"
  kill_timers :: "agent_id list"

text \<open>The state of the module when it is loaded (lines 14 to 16).\<close>

definition empty_server :: server where
  "empty_server =
     \<lparr>activeMonitors = [], monitorUpdates = Map.empty, sentUpdateIndices = Map.empty,
      processes = Map.empty, listeners = Map.empty, kill_timers = []\<rparr>"

text \<open>\<^verbatim>\<open>monitorUpdates.get(agentId) || []\<close>\<close>

definition updates_or_empty :: "server \<Rightarrow> agent_id \<Rightarrow> update list" where
  "updates_or_empty s a = (case monitorUpdates s a of None \<Rightarrow> [] | Some us \<Rightarrow> us)"

text \<open>
  The three statements every listener ends with (lines 343 to 350, 358 to 365 and 372 to
  379): read the array, push the object, store the last 50.
\<close>

definition push_update :: "server \<Rightarrow> agent_id \<Rightarrow> update \<Rightarrow> server" where
  "push_update s a u =
     s\<lparr>monitorUpdates := (monitorUpdates s)(a \<mapsto> slice_from (- 50) (updates_or_empty s a @ [u]))\<rparr>"

text \<open>Several updates pushed one after the other.\<close>

definition push_updates :: "server \<Rightarrow> agent_id \<Rightarrow> update list \<Rightarrow> server" where
  "push_updates s a us = foldl (\<lambda>s' u. push_update s' a u) s us"


subsection \<open>The parser of the watcher's output\<close>

text \<open>
  The marker that the source searches in a line, \<^verbatim>\<open>line.includes('...')\<close> on lines 222
  to 290: the six code points U+00E2 U+201D U+201D U+00E2 U+201D U+20AC of the string
  literal, in UTF-8.
\<close>

definition marker :: string where
  "marker = [CHR 0xC3, CHR 0xA2, CHR 0xE2, CHR 0x80, CHR 0x9D, CHR 0xE2, CHR 0x80, CHR 0x9D,
             CHR 0xC3, CHR 0xA2, CHR 0xE2, CHR 0x80, CHR 0x9D, CHR 0xE2, CHR 0x82, CHR 0xAC]"

text \<open>
  One turn of the loop of \<^verbatim>\<open>parseMetricsSection\<close> (lines 220 to 266): the first
  branch whose label the line includes is taken, and it assigns its field when its
  pattern matches. \<open>None\<close> when no branch is taken or the pattern of the branch taken
  does not match.
\<close>

definition parse_metric_line :: "string \<Rightarrow> (field \<times> num) option" where
  "parse_metric_line line =
     (if js_includes line (marker @ '' LOC:'') then
        map_option (\<lambda>g. (F_loc, ParseInt g)) (regex_capture ''LOC:'' is_digit line)
      else if js_includes line (marker @ '' COMPLEXITY:'') then
        map_option (\<lambda>g. (F_complexity, ParseFloat g))
          (regex_capture ''COMPLEXITY:'' is_digit_or_dot line)
      else if js_includes line (marker @ '' DEPENDENCIES:'') then
        map_option (\<lambda>g. (F_dependencies, ParseInt g))
          (regex_capture ''DEPENDENCIES:'' is_digit line)
      else if js_includes line (marker @ '' FUNCTIONS:'') then
        map_option (\<lambda>g. (F_functions, ParseInt g)) (regex_capture ''FUNCTIONS:'' is_digit line)
      else if js_includes line (marker @ '' CLASSES:'') then
        map_option (\<lambda>g. (F_classes, ParseInt g)) (regex_capture ''CLASSES:'' is_digit line)
      else if js_includes line (marker @ '' COMMENTS:'') then
        map_option (\<lambda>g. (F_comments, ParseInt g)) (regex_capture ''COMMENTS:'' is_digit line)
      else if js_includes line (marker @ '' COMPLEXITY PER LOC:'') then
        map_option (\<lambda>g. (F_complexity_per_loc, ParseFloat g))
          (regex_capture ''COMPLEXITY PER LOC:'' is_digit_or_dot line)
      else if js_includes line (marker @ '' COMMENT RATIO:'') then
        map_option (\<lambda>g. (F_comment_ratio, ParseFloat g))
          (regex_capture ''COMMENT RATIO:'' is_digit_or_dot line)
      else if js_includes line (marker @ '' FUNCTIONS PER CLASS:'') then
        map_option (\<lambda>g. (F_functions_per_class, ParseFloat g))
          (regex_capture ''FUNCTIONS PER CLASS:'' is_digit_or_dot line)
      else None)"

definition metrics_step :: "metrics \<Rightarrow> string \<Rightarrow> metrics" where
  "metrics_step m line =
     (case parse_metric_line line of None \<Rightarrow> m | Some (f, v) \<Rightarrow> assign f v m)"

text \<open>\<^verbatim>\<open>parseMetricsSection\<close>, lines 218 to 268: \<open>None\<close> is the \<^verbatim>\<open>null\<close> returned
  for an object without keys.\<close>

definition parseMetricsSection :: "string list \<Rightarrow> metrics option" where
  "parseMetricsSection lines =
     (let metrics = foldl metrics_step [] lines
      in if metrics \<noteq> [] then Some metrics else None)"

text \<open>
  What lines 299 to 301 find out about a line: \<^verbatim>\<open>JSON.parse(line)\<close> throws, or reading
  \<^verbatim>\<open>update.type\<close> throws because the value is \<^verbatim>\<open>null\<close> (\<open>Throws\<close>, both inside the
  same \<^verbatim>\<open>try\<close>); the value has a string under \<^verbatim>\<open>type\<close> (\<open>Type_is\<close>, with what
  its \<^verbatim>\<open>message\<close> is); or it has none (\<open>Untyped\<close>). \<^verbatim>\<open>JSON.parse\<close> belongs to the
  language, not to the repository: the listener takes it as the parameter \<open>parse\<close>.
\<close>

datatype json_outcome = Throws | Type_is string json_message | Untyped

type_synonym decoder = "string \<Rightarrow> json_outcome"

text \<open>
  The state of one run of the \<^verbatim>\<open>forEach\<close> of lines 281 to 331: the local array
  \<^verbatim>\<open>updates\<close>, \<^verbatim>\<open>bufferLines\<close>, the metric objects printed by line 293 so far, and
  the module state. One turn handles one line together with the time that
  \<^verbatim>\<open>new Date().toISOString()\<close> gives while the line is handled.
\<close>

type_synonym loop_state = "update list \<times> string list \<times> metrics list \<times> server"

definition stdout_line ::
  "decoder \<Rightarrow> agent_id \<Rightarrow> string \<Rightarrow> loop_state \<Rightarrow> timestamp \<times> string \<Rightarrow> loop_state" where
  "stdout_line parse a loc st stamped =
     (case (st, stamped) of ((updates, buf, printed, s), (t, line)) \<Rightarrow>
        let marked = js_includes line marker;
            buf1 = (if marked then buf @ [line] else buf);
            flush = (buf1 \<noteq> [] \<and> \<not> marked \<and> js_trim line \<noteq> []);
            printed1 = (if flush then
                          (case parseMetricsSection buf1 of
                             None \<Rightarrow> printed | Some m \<Rightarrow> printed @ [m])
                        else printed);
            buf2 = (if flush then [] else buf1);
            updates1 =
              (case parse line of
                 Type_is ty message \<Rightarrow>
                   if ty = ''file_change'' \<or> ty = ''analysis_result''
                   then updates @ [Structured line message t a loc] else updates
               | Untyped \<Rightarrow> updates
               | Throws \<Rightarrow>
                   updates @
                   [ConsoleOutput line t a loc
                      (if js_includes line ''EXTRACTED FEATURES'' \<and> buf2 \<noteq> []
                       then parseMetricsSection buf2 else None)])
        in (updates1, buf2, printed1,
            s\<lparr>monitorUpdates := (monitorUpdates s)(a \<mapsto> slice_from (- 50) updates1)\<rparr>))"

text \<open>\<^verbatim>\<open>data.toString().split('\n').filter(line => line.trim())\<close>, line 278.\<close>

definition chunk_lines :: "string \<Rightarrow> string list" where
  "chunk_lines data = filter (\<lambda>line. js_trim line \<noteq> []) (split_on CHR 0x0A data)"

text \<open>
  Lines 279 to 331 of the listener of \<^verbatim>\<open>stdout.on('data')\<close>, for the agent \<open>a\<close>, once
  line 278 has computed \<open>lines\<close>; every line comes with the time at which it is handled.
  The listener exists once the start route has registered it. The second component is
  what line 293 printed.
\<close>

definition stdout_lines ::
  "decoder \<Rightarrow> server \<Rightarrow> agent_id \<Rightarrow> (timestamp \<times> string) list \<Rightarrow> server \<times> metrics list" where
  "stdout_lines parse s a lines =
     (case listeners s a of
        None \<Rightarrow> (s, [])
      | Some l \<Rightarrow>
          (case foldl (stdout_line parse a (deployedLocation l))
                  (updates_or_empty s a, bufferLines l, [], s) lines of
             (updates, buf, printed, s1) \<Rightarrow>
               (s1\<lparr>listeners := (listeners s1)(a \<mapsto> l\<lparr>processStarted := True, bufferLines := buf\<rparr>)\<rparr>,
                printed)))"

text \<open>The listener of \<^verbatim>\<open>stdout.on('data')\<close>, lines 271 to 335, for a chunk whose lines
  are all handled at the time \<open>t\<close>. The chunk is the text that \<^verbatim>\<open>data.toString()\<close>
  gives; a chunk that ends inside a character of several bytes is not modelled.\<close>

definition stdout_data ::
  "decoder \<Rightarrow> server \<Rightarrow> agent_id \<Rightarrow> timestamp \<Rightarrow> string \<Rightarrow> server \<times> metrics list" where
  "stdout_data parse s a t data = stdout_lines parse s a (map (Pair t) (chunk_lines data))"

text \<open>The listener of \<^verbatim>\<open>stderr.on('data')\<close>, lines 338 to 351.\<close>

definition stderr_data :: "server \<Rightarrow> agent_id \<Rightarrow> timestamp \<Rightarrow> string \<Rightarrow> server" where
  "stderr_data s a t data =
     (case listeners s a of
        None \<Rightarrow> s
      | Some l \<Rightarrow> push_update s a (ErrorUpdate (js_trim data) t a))"

text \<open>The listener of \<^verbatim>\<open>on('close')\<close>, lines 354 to 366; the process is gone when it
  runs.\<close>

definition process_close :: "server \<Rightarrow> agent_id \<Rightarrow> timestamp \<Rightarrow> int option \<Rightarrow> server" where
  "process_close s a t code =
     (case listeners s a of
        None \<Rightarrow> s
      | Some l \<Rightarrow>
          push_update
            (s\<lparr>activeMonitors := remove_key a (activeMonitors s),
               processes := (processes s)(a := map_option (\<lambda>p. p\<lparr>exited := True\<rparr>) (processes s a))\<rparr>)
            a (MonitorStopped code t a))"

text \<open>The listener of \<^verbatim>\<open>on('error')\<close>, lines 368 to 380, for an error with the given
  message.\<close>

definition process_error :: "server \<Rightarrow> agent_id \<Rightarrow> timestamp \<Rightarrow> string \<Rightarrow> server" where
  "process_error s a t msg =
     (case listeners s a of
        None \<Rightarrow> s
      | Some l \<Rightarrow>
          push_update (s\<lparr>activeMonitors := remove_key a (activeMonitors s)\<rparr>)
            a (ErrorUpdate (''Failed to start monitoring: '' @ msg) t a))"

text \<open>
  What the runtime does with a process object whose launch has failed with the error number
  \<open>errno\<close>: it emits \<^verbatim>\<open>error\<close> and then, the streams of the object being closed,
  \<^verbatim>\<open>close\<close> with the error number as exit code. Both listeners run before the timer of
  the reply.
\<close>

definition failed_launch ::
  "server \<Rightarrow> agent_id \<Rightarrow> timestamp \<Rightarrow> timestamp \<Rightarrow> string \<Rightarrow> int \<Rightarrow> server" where
  "failed_launch s a t t' msg errno =
     process_close (process_error s a t msg) a t' (Some errno)"

subsection \<open>The poll route\<close>

datatype poll_reply = Poll_200 "update list" | Poll_500

text \<open>
  \<^verbatim>\<open>sentUpdateIndices.get(agentId) || -1\<close>: the operator \<^verbatim>\<open>||\<close> takes its right
  operand when the left one is undefined and also when it is the number 0.
\<close>

definition lastSentIndex :: "server \<Rightarrow> agent_id \<Rightarrow> int" where
  "lastSentIndex s a =
     (case sentUpdateIndices s a of None \<Rightarrow> - 1 | Some k \<Rightarrow> if k = 0 then - 1 else k)"

text \<open>
  The statement of line 432 evaluates \<^verbatim>\<open>update.message?.substring(0, 50)\<close> for an update
  that is about to be sent. It throws a \<^verbatim>\<open>TypeError\<close> when \<^verbatim>\<open>message\<close> is neither absent
  nor a string, which only the message of a decoded JSON line can be; the messages that the
  listeners build themselves are strings.
\<close>

definition log_throws :: "update \<Rightarrow> bool" where
  "log_throws u =
     (case u of
        Structured line message t a loc \<Rightarrow> message = Other_message
      | ConsoleOutput message t a loc metrics \<Rightarrow> False
      | ErrorUpdate message t a \<Rightarrow> False
      | MonitorStopped code t a \<Rightarrow> False)"

text \<open>
  \<^verbatim>\<open>router.get('/monitor-updates/:agentId')\<close>, lines 415 to 444. The watermark is stored
  on line 426, before the new updates are logged (lines 429 to 434) and the reply is sent
  (line 436); when the logging throws, the \<^verbatim>\<open>catch\<close> of line 437 answers with status
  500 and the watermark stays stored.
\<close>

definition monitor_updates :: "server \<Rightarrow> agent_id \<Rightarrow> poll_reply \<times> server" where
  "monitor_updates s a =
     (let allUpdates = updates_or_empty s a;
          newUpdates = slice_from (lastSentIndex s a + 1) allUpdates;
          s' = s\<lparr>sentUpdateIndices := (sentUpdateIndices s)(a \<mapsto> int (length allUpdates) - 1)\<rparr>
      in if list_ex log_throws newUpdates then (Poll_500, s') else (Poll_200 newUpdates, s'))"


subsection \<open>The stop route\<close>

text \<open>
  \<^verbatim>\<open>subprocess.kill(signal)\<close> of the runtime: while the process exists the signal is
  delivered and the property \<^verbatim>\<open>killed\<close> becomes true; once the process is gone nothing
  happens. \<^verbatim>\<open>killed\<close> records that a signal was sent, not that the process ended.
\<close>

definition kill :: "signal \<Rightarrow> child_process \<Rightarrow> child_process" where
  "kill sig p = (if exited p then p else p\<lparr>killed := True, signals := signals p @ [sig]\<rparr>)"

text \<open>The two fields of a stop request are strings when they are present, as the client
  sends them. Such a field is truthy when it is present and not the empty string.\<close>

definition truthy :: "string option \<Rightarrow> bool" where
  "truthy v = (case v of None \<Rightarrow> False | Some x \<Rightarrow> x \<noteq> [])"

text \<open>
  \<^verbatim>\<open>sessionId.split('_')[1]\<close> as the argument of \<^verbatim>\<open>id.includes\<close>: the second piece,
  and the text \<^verbatim>\<open>undefined\<close> when there is no second piece, since \<^verbatim>\<open>includes\<close>
  converts its argument to a string.
\<close>

definition session_token :: "string \<Rightarrow> string" where
  "session_token sessionId =
     (case split_on CHR ''_'' sessionId of
        first # second # rest \<Rightarrow> second
      | _ \<Rightarrow> ''undefined'')"

text \<open>The loop of lines 686 to 691 over \<^verbatim>\<open>activeMonitors\<close>, in insertion order, leaving
  at the first match.\<close>

fun find_agent :: "string \<Rightarrow> (agent_id \<times> monitor) list \<Rightarrow> agent_id option" where
  "find_agent token [] = None"
| "find_agent token ((key, m) # rest) =
     (if js_includes key token then Some key else find_agent token rest)"

text \<open>Lines 683 to 692: the agent to stop.\<close>

definition targetAgentId :: "server \<Rightarrow> string option \<Rightarrow> string option \<Rightarrow> string option" where
  "targetAgentId s sessionId agentId =
     (if \<not> truthy agentId \<and> truthy sessionId then
        (case sessionId of
           None \<Rightarrow> agentId
         | Some sid \<Rightarrow>
             (case find_agent (session_token sid) (activeMonitors s) of
                None \<Rightarrow> agentId
              | Some key \<Rightarrow> Some key))
      else agentId)"

datatype stop_reply = Stop_200 agent_id | Stop_404 | Stop_500

text \<open>
  \<^verbatim>\<open>router.post('/stop-monitoring')\<close>, lines 675 to 732, the first route registered
  under that path. The timer of lines 708 to 712 is armed here and runs as
  \<open>force_kill_timer\<close> below.
\<close>

definition stop_monitoring :: "server \<Rightarrow> string option \<Rightarrow> string option \<Rightarrow> stop_reply \<times> server" where
  "stop_monitoring s sessionId agentId =
     (case targetAgentId s sessionId agentId of
        None \<Rightarrow> (Stop_404, s)
      | Some target \<Rightarrow>
          if target = [] \<or> map_of (activeMonitors s) target = None then (Stop_404, s)
          else
            let s1 = (case processes s target of
                        None \<Rightarrow> s
                      | Some p \<Rightarrow>
                          if \<not> killed p
                          then s\<lparr>processes := (processes s)(target \<mapsto> kill SIGTERM p),
                                 kill_timers := kill_timers s @ [target]\<rparr>
                          else s)
            in (Stop_200 target,
                s1\<lparr>activeMonitors := remove_key target (activeMonitors s1),
                    monitorUpdates := (monitorUpdates s1)(target := None)\<rparr>))"

text \<open>The callback of the timer, 5000 ms after the stop request (lines 708 to 712).\<close>

definition force_kill_timer :: "server \<Rightarrow> agent_id \<Rightarrow> server" where
  "force_kill_timer s a =
     (if a \<notin> set (kill_timers s) then s
      else
        let s1 = s\<lparr>kill_timers := remove1 a (kill_timers s)\<rparr>
        in (case processes s1 a of
              None \<Rightarrow> s1
            | Some p \<Rightarrow>
                if \<not> killed p then s1\<lparr>processes := (processes s1)(a \<mapsto> kill SIGKILL p)\<rparr>
                else s1))"


subsection \<open>Paths on a POSIX system\<close>

text \<open>\<^verbatim>\<open>path.isAbsolute\<close>\<close>

definition isAbsolute :: "string \<Rightarrow> bool" where
  "isAbsolute p = (case p of [] \<Rightarrow> False | c # cs \<Rightarrow> c = CHR ''/'')"

fun join_with :: "string \<Rightarrow> string list \<Rightarrow> string" where
  "join_with sep [] = []"
| "join_with sep [x] = x"
| "join_with sep (x # y # ys) = x @ sep @ join_with sep (y # ys)"

text \<open>The segments of a path after \<^verbatim>\<open>.\<close>, \<^verbatim>\<open>..\<close> and empty segments are resolved;
  \<open>allowAboveRoot\<close> says whether \<^verbatim>\<open>..\<close> may remain at the front (a relative path).\<close>

fun normalize_segments :: "bool \<Rightarrow> string list \<Rightarrow> string list \<Rightarrow> string list" where
  "normalize_segments allowAboveRoot acc [] = acc"
| "normalize_segments allowAboveRoot acc (seg # rest) =
     (if seg = [] \<or> seg = ''.'' then normalize_segments allowAboveRoot acc rest
      else if seg = ''..'' then
        (if acc \<noteq> [] \<and> last acc \<noteq> ''..'' then normalize_segments allowAboveRoot (butlast acc) rest
         else if allowAboveRoot then normalize_segments allowAboveRoot (acc @ [seg]) rest
         else normalize_segments allowAboveRoot acc rest)
      else normalize_segments allowAboveRoot (acc @ [seg]) rest)"

text \<open>\<^verbatim>\<open>path.normalize\<close> and \<^verbatim>\<open>path.join\<close>\<close>

definition posix_normalize :: "string \<Rightarrow> string" where
  "posix_normalize p =
     (if p = [] then ''.''
      else
        let absolute = isAbsolute p;
            trailing = (last p = CHR ''/'');
            body = join_with ''/'' (normalize_segments (\<not> absolute) [] (split_on CHR ''/'' p))
        in if body = [] then (if absolute then ''/'' else if trailing then ''./'' else ''.'')
           else (if absolute then ''/'' else []) @ body @ (if trailing then ''/'' else []))"

definition posix_join :: "string list \<Rightarrow> string" where
  "posix_join parts =
     (let joined = join_with ''/'' (filter (\<lambda>part. part \<noteq> []) parts)
      in if joined = [] then ''.'' else posix_normalize joined)"

subsection \<open>The file system and the environment of the start route\<close>

text \<open>
  The file system as the routes see it through \<^verbatim>\<open>fs.promises\<close>. A file or directory
  is named by the segments that lead to it from the root. A path string is resolved to
  these segments as \<^verbatim>\<open>path.resolve\<close> does: a relative path starts at the working
  directory of the process, and empty segments, \<^verbatim>\<open>.\<close> and \<^verbatim>\<open>..\<close> are resolved; so a
  directory is found under its name with a slash at the end too. Symbolic links are not
  modelled. The file system holds the directories (the root is always one), the regular
  files with their contents, and the places at which creating, writing or removing is
  refused. The contents written by the start route are a text or the deployment
  configuration \<^verbatim>\<open>JSON.stringify(deploymentConfig, null, 2)\<close> of a project name.
\<close>

datatype fs_error = ENOENT | EACCES | EEXIST | EISDIR | ENOTDIR

datatype content = Text string | Deployment_config string

type_synonym place = "string list"

record filesystem =
  directories :: "place set"
  files :: "place \<rightharpoonup> content"
  unwritable :: "place set"

definition resolve_path :: "string \<Rightarrow> string \<Rightarrow> place" where
  "resolve_path wd p =
     normalize_segments False [] (split_on CHR ''/'' (if isAbsolute p then p else wd @ ''/'' @ p))"

definition is_directory :: "filesystem \<Rightarrow> place \<Rightarrow> bool" where
  "is_directory fs q = (q = [] \<or> q \<in> directories fs)"

text \<open>A path string that ends with a slash or with the segment \<^verbatim>\<open>.\<close> asks for a
  directory.\<close>

definition asks_for_directory :: "string \<Rightarrow> bool" where
  "asks_for_directory p = (last (split_on CHR ''/'' p) \<in> {[], ''.''})"

text \<open>\<^verbatim>\<open>(await fs.stat(p)).isDirectory()\<close> in the working directory \<open>wd\<close>; \<open>Inl\<close> when
  \<^verbatim>\<open>stat\<close> throws.\<close>

definition stat_isDirectory :: "string \<Rightarrow> filesystem \<Rightarrow> string \<Rightarrow> fs_error + bool" where
  "stat_isDirectory wd fs p =
     (let q = resolve_path wd p
      in if is_directory fs q then Inr True
         else if files fs q \<noteq> None then (if asks_for_directory p then Inl ENOTDIR else Inr False)
         else Inl ENOENT)"

text \<open>The directories on the way from the root to a place, the place itself last.\<close>

definition ancestors :: "place \<Rightarrow> place list" where
  "ancestors q = map (\<lambda>n. take n q) [1..<Suc (length q)]"

text \<open>
  \<^verbatim>\<open>fs.mkdir(p, { recursive: true })\<close>: every directory on the way that is missing is
  created, from the root downwards; nothing is done for one that exists. The call fails
  at the first place that is a file or where creating is refused, and the directories
  created before stay.
\<close>

fun make_dirs :: "filesystem \<Rightarrow> place list \<Rightarrow> (fs_error \<times> filesystem) + filesystem" where
  "make_dirs fs [] = Inr fs"
| "make_dirs fs (q # qs) =
     (if q \<in> directories fs then make_dirs fs qs
      else if files fs q \<noteq> None then Inl (if qs = [] then EEXIST else ENOTDIR, fs)
      else if q \<in> unwritable fs then Inl (EACCES, fs)
      else make_dirs (fs\<lparr>directories := insert q (directories fs)\<rparr>) qs)"

definition mkdir_recursive ::
  "string \<Rightarrow> filesystem \<Rightarrow> string \<Rightarrow> (fs_error \<times> filesystem) + filesystem" where
  "mkdir_recursive wd fs p = make_dirs fs (ancestors (resolve_path wd p))"

text \<open>\<^verbatim>\<open>fs.writeFile(p, c)\<close>: the file is created or replaced in a directory that
  exists.\<close>

definition writeFile :: "string \<Rightarrow> filesystem \<Rightarrow> string \<Rightarrow> content \<Rightarrow> fs_error + filesystem" where
  "writeFile wd fs p c =
     (let q = resolve_path wd p
      in if is_directory fs q then Inl EISDIR
         else if \<not> is_directory fs (butlast q)
           then Inl (if files fs (butlast q) \<noteq> None then ENOTDIR else ENOENT)
         else if q \<in> unwritable fs then Inl EACCES
         else Inr (fs\<lparr>files := (files fs)(q \<mapsto> c)\<rparr>))"

text \<open>\<^verbatim>\<open>fs.unlink(p)\<close>\<close>

definition unlink :: "string \<Rightarrow> filesystem \<Rightarrow> string \<Rightarrow> fs_error + filesystem" where
  "unlink wd fs p =
     (let q = resolve_path wd p
      in if is_directory fs q then Inl EISDIR
         else if files fs q = None then Inl ENOENT
         else if q \<in> unwritable fs then Inl EACCES
         else Inr (fs\<lparr>files := (files fs)(q := None)\<rparr>))"

text \<open>\<^verbatim>\<open>fs.copyFile(src, dst)\<close>\<close>

definition copyFile :: "string \<Rightarrow> filesystem \<Rightarrow> string \<Rightarrow> string \<Rightarrow> fs_error + filesystem" where
  "copyFile wd fs src dst =
     (let q = resolve_path wd src
      in if is_directory fs q then Inl EISDIR
         else (case files fs q of None \<Rightarrow> Inl ENOENT | Some c \<Rightarrow> writeFile wd fs dst c))"

text \<open>\<^verbatim>\<open>fs.access(p)\<close> does not throw.\<close>

definition access :: "string \<Rightarrow> filesystem \<Rightarrow> string \<Rightarrow> bool" where
  "access wd fs p = (let q = resolve_path wd p in is_directory fs q \<or> files fs q \<noteq> None)"

text \<open>
  What \<^verbatim>\<open>spawn\<close> does: the process runs; or the launch fails with an error number of
  the operating system (a missing executable is -2, a refused permission -13) and the
  runtime emits \<^verbatim>\<open>error\<close> with a message on the returned object after the current code
  has run; or \<^verbatim>\<open>spawn\<close> itself throws.
\<close>

datatype spawn_result = Spawn_ok | Spawn_error_event string int | Spawn_throws string

text \<open>
  What the start route reads from outside the module: \<^verbatim>\<open>path.join\<close>,
  \<^verbatim>\<open>__dirname\<close>, \<^verbatim>\<open>process.cwd()\<close>, \<^verbatim>\<open>process.env.USER\<close>, the agent id built on
  line 30 from the clock and a random number, the time of line 388, the entries of the
  media directory (\<open>None\<close> when \<^verbatim>\<open>readdir\<close> throws) and the behaviour of \<^verbatim>\<open>spawn\<close>.
\<close>

record environment =
  path_join :: "string list \<Rightarrow> string"
  dirname :: string
  cwd :: string
  env_USER :: "string option"
  new_agent_id :: agent_id
  clock :: timestamp
  media_entries :: "string list option"
  spawn_outcome :: spawn_result

text \<open>\<^verbatim>\<open>process.env.USER || fallback\<close>\<close>

definition user_or :: "environment \<Rightarrow> string \<Rightarrow> string" where
  "user_or env fallback =
     (case env_USER env of None \<Rightarrow> fallback | Some u \<Rightarrow> if u = [] then fallback else u)"

text \<open>Lines 40 to 59: the places where a relative folder is looked for, in order.\<close>

definition possiblePaths :: "environment \<Rightarrow> string \<Rightarrow> string list" where
  "possiblePaths env folder =
     (let projectRoot = path_join env [dirname env, ''../../''];
          mediaUserDir = ''/media/'' @ user_or env ''sekar''
      in [path_join env [projectRoot, folder],
          path_join env [cwd env, folder],
          path_join env [''/home'', user_or env ''user'', folder],
          path_join env [''/home'', user_or env ''user'', ''Desktop'', folder],
          path_join env [''/home'', user_or env ''user'', ''Documents'', folder],
          folder]
         @ (case media_entries env of
              None \<Rightarrow> []
            | Some drives \<Rightarrow> map (\<lambda>drive. path_join env [mediaUserDir, drive, folder]) drives))"

text \<open>The replies of the start route, by the statement that sends them:
  line 90 (with the error caught), line 106, line 118, line 164, line 405, and line 393,
  which runs in a timer 1000 ms after the route has returned.\<close>

datatype start_reply =
    Start_500_location string fs_error
  | Start_400_not_a_directory string
  | Start_400_not_accessible string
  | Start_500_deploy_failed fs_error
  | Start_500_failed string
  | Start_200 agent_id string string

definition test_file_text :: string where
  "test_file_text = ''# Test file for monitoring'' @ [CHR 0x0A] @ ''print(\"Hello World\")''"

text \<open>
  Lines 35 to 98: the folder to deploy to. An absolute path is taken as it is; a relative
  one is the first candidate that is a directory; when there is none, the directory
  \<^verbatim>\<open>path.join('/tmp', 'riskguard_test', folder)\<close> is created with a file \<^verbatim>\<open>test.py\<close>,
  and a failure of either step ends the request.
\<close>

definition resolve_folder ::
  "environment \<Rightarrow> filesystem \<Rightarrow> string \<Rightarrow> (start_reply + string) \<times> filesystem" where
  "resolve_folder env fs folder =
     (if isAbsolute folder then (Inr folder, fs)
      else
        (case find (\<lambda>testPath. stat_isDirectory (cwd env) fs testPath = Inr True)
                (possiblePaths env folder) of
           Some found \<Rightarrow> (Inr found, fs)
         | None \<Rightarrow>
             let tempPath = path_join env [''/tmp'', ''riskguard_test'', folder]
             in (case mkdir_recursive (cwd env) fs tempPath of
                   Inl (e, fs1) \<Rightarrow> (Inl (Start_500_location folder e), fs1)
                 | Inr fs1 \<Rightarrow>
                     (case writeFile (cwd env) fs1 (path_join env [tempPath, ''test.py''])
                             (Text test_file_text) of
                        Inl e \<Rightarrow> (Inl (Start_500_location folder e), fs1)
                      | Inr fs2 \<Rightarrow> (Inr tempPath, fs2)))))"

text \<open>Lines 102 to 122: the folder exists, is a directory and can be written to.\<close>

definition check_writable ::
  "environment \<Rightarrow> filesystem \<Rightarrow> string \<Rightarrow> (start_reply + unit) \<times> filesystem" where
  "check_writable env fs absoluteFolderPath =
     (case stat_isDirectory (cwd env) fs absoluteFolderPath of
        Inl e \<Rightarrow> (Inl (Start_400_not_accessible absoluteFolderPath), fs)
      | Inr False \<Rightarrow> (Inl (Start_400_not_a_directory absoluteFolderPath), fs)
      | Inr True \<Rightarrow>
          let testFile = path_join env [absoluteFolderPath, ''.riskguard_test'']
          in (case writeFile (cwd env) fs testFile (Text ''test'') of
                Inl e \<Rightarrow> (Inl (Start_400_not_accessible absoluteFolderPath), fs)
              | Inr fs1 \<Rightarrow>
                  (case unlink (cwd env) fs1 testFile of
                     Inl e \<Rightarrow> (Inl (Start_400_not_accessible absoluteFolderPath), fs1)
                   | Inr fs2 \<Rightarrow> (Inr (), fs2))))"

definition sourceDir :: "environment \<Rightarrow> string" where
  "sourceDir env = path_join env [dirname env, ''../../monitoring-agent'']"

definition deployed_paths :: "environment \<Rightarrow> string \<Rightarrow> string list" where
  "deployed_paths env absoluteFolderPath =
     [path_join env [absoluteFolderPath, ''portable_monitor.py''],
      path_join env [absoluteFolderPath, ''monitor_config.json''],
      path_join env [absoluteFolderPath, ''requirements.txt'']]"

text \<open>
  Lines 125 to 168: the three files of the monitor are put into the folder. The
  \<^verbatim>\<open>chmod\<close> of line 154 changes nothing that is modelled, and its failure is ignored.
\<close>

definition requirements_text :: string where
  "requirements_text = ''watchdog>=6.0.0'' @ [CHR 0x0A] @ ''requests>=2.32.0'' @ [CHR 0x0A]"

definition deploy_files ::
  "environment \<Rightarrow> filesystem \<Rightarrow> string \<Rightarrow> string \<Rightarrow> (start_reply + unit) \<times> filesystem" where
  "deploy_files env fs absoluteFolderPath project =
     (case copyFile (cwd env) fs (path_join env [sourceDir env, ''portable_monitor.py''])
             (path_join env [absoluteFolderPath, ''portable_monitor.py'']) of
        Inl e \<Rightarrow> (Inl (Start_500_deploy_failed e), fs)
      | Inr fs1 \<Rightarrow>
          (case writeFile (cwd env) fs1 (path_join env [absoluteFolderPath, ''monitor_config.json''])
                  (Deployment_config project) of
             Inl e \<Rightarrow> (Inl (Start_500_deploy_failed e), fs1)
           | Inr fs2 \<Rightarrow>
               (case writeFile (cwd env) fs2 (path_join env [absoluteFolderPath, ''requirements.txt''])
                       (Text requirements_text) of
                  Inl e \<Rightarrow> (Inl (Start_500_deploy_failed e), fs2)
                | Inr fs3 \<Rightarrow> (Inr (), fs3))))"

text \<open>Lines 171 to 190: the interpreter of the agent's virtual environment when it is
  there, the one of the system otherwise. The \<^verbatim>\<open>pip3 install\<close> of line 185 changes
  nothing that is modelled, and its failure is ignored.\<close>

definition pythonExecutable :: "environment \<Rightarrow> filesystem \<Rightarrow> string" where
  "pythonExecutable env fs =
     (let monitoringAgentVenv = path_join env [sourceDir env, ''venv'', ''bin'', ''python3'']
      in if access (cwd env) fs monitoringAgentVenv then monitoringAgentVenv else ''python3'')"

text \<open>
  Lines 196 to 401: the process is spawned, the update array of the agent is created, the
  listeners are registered, the monitor is stored and the timer for the reply is armed. A
  launch that fails with an \<^verbatim>\<open>error\<close> event has returned a process object without a
  process behind it; the events themselves are \<open>failed_launch\<close>, run by the runtime
  afterwards.
\<close>

definition spawn_monitor ::
  "environment \<Rightarrow> filesystem \<Rightarrow> server \<Rightarrow> string \<Rightarrow> string \<Rightarrow> start_reply \<times> server" where
  "spawn_monitor env fs s absoluteFolderPath project =
     (case spawn_outcome env of
        Spawn_throws msg \<Rightarrow> (Start_500_failed msg, s)
      | outcome \<Rightarrow>
          let a = new_agent_id env;
              child = \<lparr>command = pythonExecutable env fs,
                       arguments = [path_join env [absoluteFolderPath, ''portable_monitor.py''],
                                    ''--watch-dir'', absoluteFolderPath,
                                    ''--config'',
                                    path_join env [absoluteFolderPath, ''monitor_config.json''],
                                    ''--project-id'', project],
                       killed = False,
                       exited = (outcome \<noteq> Spawn_ok),
                       signals = []\<rparr>
          in (Start_200 a absoluteFolderPath project,
              s\<lparr>monitorUpdates := (monitorUpdates s)(a \<mapsto> []),
                processes := (processes s)(a \<mapsto> child),
                listeners := (listeners s)
                  (a \<mapsto> \<lparr>processStarted = False, bufferLines = [],
                         deployedLocation = absoluteFolderPath\<rparr>),
                activeMonitors :=
                  assign a \<lparr>folderPath = absoluteFolderPath, projectName = project,
                            deployedFiles = deployed_paths env absoluteFolderPath,
                            startTime = clock env\<rparr>
                    (activeMonitors s)\<rparr>))"

text \<open>
  \<^verbatim>\<open>router.post('/start-realtime-monitor')\<close>, lines 27 to 410, for a request that has
  passed the validation of its two fields, which are strings.
\<close>

definition start_realtime_monitor ::
  "environment \<Rightarrow> filesystem \<Rightarrow> server \<Rightarrow> string \<Rightarrow> string
     \<Rightarrow> start_reply \<times> filesystem \<times> server" where
  "start_realtime_monitor env fs s folder project =
     (case resolve_folder env fs folder of
        (Inl reply, fs1) \<Rightarrow> (reply, fs1, s)
      | (Inr absoluteFolderPath, fs1) \<Rightarrow>
          (case check_writable env fs1 absoluteFolderPath of
             (Inl reply, fs2) \<Rightarrow> (reply, fs2, s)
           | (Inr u, fs2) \<Rightarrow>
               (case deploy_files env fs2 absoluteFolderPath project of
                  (Inl reply, fs3) \<Rightarrow> (reply, fs3, s)
                | (Inr u', fs3) \<Rightarrow>
                    (case spawn_monitor env fs3 s absoluteFolderPath project of
                       (reply, s') \<Rightarrow> (reply, fs3, s')))))"

subsection \<open>The effect of lines on the update array, apart from the module state\<close>

text \<open>
  What \<open>stdout_line\<close> adds for one line when the buffer is \<open>buf\<close>: the updates pushed, the
  buffer afterwards and what line 293 printed. \<open>lines_result\<close> chains it over a list of
  lines. \<open>set_log\<close> is the assignment of line 330.
\<close>

definition line_result ::
  "decoder \<Rightarrow> agent_id \<Rightarrow> string \<Rightarrow> string list \<Rightarrow> timestamp \<times> string
     \<Rightarrow> update list \<times> string list \<times> metrics list" where
  "line_result parse a loc buf stamped =
     (case stdout_line parse a loc ([], buf, [], empty_server) stamped of
        (updates, buf', printed, s) \<Rightarrow> (updates, buf', printed))"

fun lines_result ::
  "decoder \<Rightarrow> agent_id \<Rightarrow> string \<Rightarrow> string list \<Rightarrow> (timestamp \<times> string) list
     \<Rightarrow> update list \<times> string list \<times> metrics list" where
  "lines_result parse a loc buf [] = ([], buf, [])"
| "lines_result parse a loc buf (stamped # rest) =
     (case line_result parse a loc buf stamped of
        (us, buf1, pr) \<Rightarrow>
          (case lines_result parse a loc buf1 rest of
             (us', buf2, pr') \<Rightarrow> (us @ us', buf2, pr @ pr')))"

definition set_log :: "server \<Rightarrow> agent_id \<Rightarrow> update list \<Rightarrow> server" where
  "set_log s a us = s\<lparr>monitorUpdates := (monitorUpdates s)(a \<mapsto> slice_from (- 50) us)\<rparr>"

text \<open>\<^verbatim>\<open>JSON.parse\<close> on the lines of the samples below, none of which is a JSON text.\<close>

definition text_decoder :: decoder where
  "text_decoder line = Throws"

text \<open>The white space characters of the language one after the other, from the tab to the
  byte order mark.\<close>

definition every_space :: string where
  "every_space =
     [CHR 0x09, CHR 0x0A, CHR 0x0B, CHR 0x0C, CHR 0x0D, CHR 0x20,
      CHR 0xC2, CHR 0xA0,   CHR 0xE1, CHR 0x9A, CHR 0x80,
      CHR 0xE2, CHR 0x80, CHR 0x80,   CHR 0xE2, CHR 0x80, CHR 0x81,
      CHR 0xE2, CHR 0x80, CHR 0x82,   CHR 0xE2, CHR 0x80, CHR 0x83,
      CHR 0xE2, CHR 0x80, CHR 0x84,   CHR 0xE2, CHR 0x80, CHR 0x85,
      CHR 0xE2, CHR 0x80, CHR 0x86,   CHR 0xE2, CHR 0x80, CHR 0x87,
      CHR 0xE2, CHR 0x80, CHR 0x88,   CHR 0xE2, CHR 0x80, CHR 0x89,
      CHR 0xE2, CHR 0x80, CHR 0x8A,   CHR 0xE2, CHR 0x80, CHR 0xA8,
      CHR 0xE2, CHR 0x80, CHR 0xA9,   CHR 0xE2, CHR 0x80, CHR 0xAF,
      CHR 0xE2, CHR 0x81, CHR 0x9F,   CHR 0xE3, CHR 0x80, CHR 0x80,
      CHR 0xEF, CHR 0xBB, CHR 0xBF]"

text \<open>
  Lines that are JSON texts: a change of a file with a number as its message, a result
  with a string as its message, a value of a type that the listener does not keep, and a
  number. \<open>sample_decoder\<close> is \<^verbatim>\<open>JSON.parse\<close> on these lines and on lines that are no
  JSON texts.
\<close>

definition numeric_message_line :: string where
  "numeric_message_line = ''{\"type\":\"file_change\",\"message\":42}''"

definition result_line :: string where
  "result_line = ''{\"type\":\"analysis_result\",\"message\":\"risk 0.82\"}''"

definition heartbeat_line :: string where
  "heartbeat_line = ''{\"type\":\"heartbeat\"}''"

definition sample_decoder :: decoder where
  "sample_decoder line =
     (if line = numeric_message_line then Type_is ''file_change'' Other_message
      else if line = result_line then Type_is ''analysis_result'' String_message
      else if line = heartbeat_line then Type_is ''heartbeat'' No_message
      else if line = ''42'' then Untyped
      else Throws)"

subsection \<open>The vocabulary of the block of metrics\<close>

text \<open>
  The nine labels in the order in which lines 222 to 264 test them, each with the field it
  stands for, the conversion of its value and the characters its value is made of.
\<close>

definition metric_labels :: "(string \<times> field \<times> (string \<Rightarrow> num) \<times> (char \<Rightarrow> bool)) list" where
  "metric_labels =
     [(''LOC:'', F_loc, ParseInt, is_digit),
      (''COMPLEXITY:'', F_complexity, ParseFloat, is_digit_or_dot),
      (''DEPENDENCIES:'', F_dependencies, ParseInt, is_digit),
      (''FUNCTIONS:'', F_functions, ParseInt, is_digit),
      (''CLASSES:'', F_classes, ParseInt, is_digit),
      (''COMMENTS:'', F_comments, ParseInt, is_digit),
      (''COMPLEXITY PER LOC:'', F_complexity_per_loc, ParseFloat, is_digit_or_dot),
      (''COMMENT RATIO:'', F_comment_ratio, ParseFloat, is_digit_or_dot),
      (''FUNCTIONS PER CLASS:'', F_functions_per_class, ParseFloat, is_digit_or_dot)]"

text \<open>The field that a line assigns according to this vocabulary: the first label that the
  line contains behind the marker and a space decides, and its value is what its pattern
  captures in the line.\<close>

definition labelled_value :: "string \<Rightarrow> (field \<times> num) option" where
  "labelled_value line =
     (case find (\<lambda>(label, f, conv, cls). js_includes line (marker @ '' '' @ label)) metric_labels of
        None \<Rightarrow> None
      | Some (label, f, conv, cls) \<Rightarrow> map_option (\<lambda>g. (f, conv g)) (regex_capture label cls line))"

subsection \<open>Sample states\<close>

definition agentA :: agent_id where
  "agentA = ''agent_1700000000000_k3x9q2m1z''"

text \<open>The state right after a start request for \<open>agentA\<close> on the folder \<^verbatim>\<open>/srv/app\<close>.\<close>

definition started_server :: server where
  "started_server =
     \<lparr>activeMonitors =
        [(agentA, \<lparr>folderPath = ''/srv/app'', projectName = ''app'',
                   deployedFiles = [''/srv/app/portable_monitor.py'',
                                    ''/srv/app/monitor_config.json'',
                                    ''/srv/app/requirements.txt''],
                   startTime = ''t0''\<rparr>)],
      monitorUpdates = [agentA \<mapsto> []],
      sentUpdateIndices = Map.empty,
      processes =
        [agentA \<mapsto> \<lparr>command = ''python3'', arguments = [], killed = False, exited = False,
                      signals = []\<rparr>],
      listeners =
        [agentA \<mapsto> \<lparr>processStarted = False, bufferLines = [], deployedLocation = ''/srv/app''\<rparr>],
      kill_timers = []\<rparr>"

text \<open>Two chunks have arrived on the standard error stream.\<close>

definition two_updates_server :: server where
  "two_updates_server =
     stderr_data (stderr_data started_server agentA ''t1'' ''one'') agentA ''t2'' ''two''"

text \<open>One chunk has arrived on the standard error stream and the client has polled.\<close>

definition one_polled_server :: server where
  "one_polled_server =
     snd (monitor_updates (stderr_data started_server agentA ''t1'' ''one'') agentA)"

text \<open>Fifty different updates, and a state whose array for \<open>agentA\<close> holds them.\<close>

definition numbered :: "nat \<Rightarrow> update" where
  "numbered i = ErrorUpdate (replicate i CHR ''x'') ''t'' agentA"

definition full_server :: server where
  "full_server = started_server\<lparr>monitorUpdates := [agentA \<mapsto> map numbered [0..<50]]\<rparr>"

text \<open>The watcher has printed the line whose message is a number.\<close>

definition numeric_message_server :: server where
  "numeric_message_server =
     fst (stdout_data sample_decoder started_server agentA ''t1'' (numeric_message_line @ [CHR 0x0A]))"

text \<open>The two updates of \<open>two_updates_server\<close> have been polled.\<close>

definition two_polled_server :: server where
  "two_polled_server = snd (monitor_updates two_updates_server agentA)"



text \<open>Lines as the watcher prints them in its block of metrics, with one unknown label
  and one value that is no number.\<close>

definition loc_line :: string where
  "loc_line = ''   '' @ marker @ '' LOC: 12''"

definition complexity_line :: string where
  "complexity_line = ''   '' @ marker @ '' COMPLEXITY: 3.5''"

definition widgets_line :: string where
  "widgets_line = ''   '' @ marker @ '' WIDGETS: 9''"

definition functions_line :: string where
  "functions_line = ''   '' @ marker @ '' FUNCTIONS: many''"

definition metrics_run :: "string list" where
  "metrics_run = [loc_line, complexity_line, widgets_line, functions_line]"

text \<open>
  An environment and a file system for the start route: the backend is installed under
  \<^verbatim>\<open>/opt/riskguard\<close>, the script of the watcher is in place, and no folder
  \<^verbatim>\<open>myproject\<close> exists anywhere. In \<open>failing_env\<close> the launch of the interpreter fails
  with an \<^verbatim>\<open>error\<close> event, in \<open>throwing_env\<close> the call of \<^verbatim>\<open>spawn\<close> throws. In
  \<open>locked_fs\<close> nothing can be created under the name of the fallback directory, in
  \<open>no_test_file_fs\<close> the file \<^verbatim>\<open>test.py\<close> cannot be written there, and in
  \<open>used_before_fs\<close> the fallback directory is left from an earlier request.
\<close>

definition sample_env :: environment where
  "sample_env =
     \<lparr>path_join = posix_join,
      dirname = ''/opt/riskguard/backend/routes'',
      cwd = ''/opt/riskguard/backend'',
      env_USER = Some ''dev'',
      new_agent_id = agentA,
      clock = ''t0'',
      media_entries = None,
      spawn_outcome = Spawn_ok\<rparr>"

definition failing_env :: environment where
  "failing_env = sample_env\<lparr>spawn_outcome := Spawn_error_event ''spawn python3 ENOENT'' (- 2)\<rparr>"

definition throwing_env :: environment where
  "throwing_env =
     sample_env\<lparr>spawn_outcome := Spawn_throws ''The argument file must be of type string''\<rparr>"

definition sample_fs :: filesystem where
  "sample_fs =
     \<lparr>directories =
        {[''tmp''], [''opt''], [''opt'', ''riskguard''], [''opt'', ''riskguard'', ''backend''],
         [''opt'', ''riskguard'', ''backend'', ''routes''],
         [''opt'', ''riskguard'', ''monitoring-agent'']},
      files =
        [ [''opt'', ''riskguard'', ''monitoring-agent'', ''portable_monitor.py'']
           \<mapsto> Text ''# watcher''],
      unwritable = {}\<rparr>"


definition no_test_file_fs :: filesystem where
  "no_test_file_fs =
     sample_fs\<lparr>unwritable := {[''tmp'', ''riskguard_test'', ''myproject'', ''test.py'']}\<rparr>"

definition used_before_fs :: filesystem where
  "used_before_fs =
     sample_fs\<lparr>directories :=
                 directories sample_fs
                 \<union> {[''tmp'', ''riskguard_test''], [''tmp'', ''riskguard_test'', ''myproject'']},
               files :=
                 (files sample_fs)
                   ([''tmp'', ''riskguard_test'', ''myproject'', ''test.py''] \<mapsto> Text ''# edited'')\<rparr>"

text \<open>The updates of a reply of the poll route.\<close>

definition reply_updates :: "poll_reply \<Rightarrow> update list" where
  "reply_updates r = (case r of Poll_200 us \<Rightarrow> us | Poll_500 \<Rightarrow> [])"

section \<open>Properties\<close>

subsection \<open>Strings\<close>

lemma starts_with_iff: "starts_with s pat \<longleftrightarrow> (\<exists>post. s = pat @ post)"
  by (induction s pat rule: starts_with.induct) auto

lemma skip_spaces_Nil: "skip_spaces spaces [] = []"
proof -
  have "find (\<lambda>w. w \<noteq> [] \<and> starts_with [] w) spaces = None"
  proof (simp only: find_None_iff, intro notI)
    assume "\<exists>w. w \<in> set spaces \<and> w \<noteq> [] \<and> starts_with [] w"
    then obtain w where "w \<noteq> []" "starts_with [] w" by blast
    then show False by (cases w) simp_all
  qed
  then show ?thesis by (simp add: skip_spaces.simps)
qed

lemma regex_capture_None:
  "regex_capture key cls line = None \<longleftrightarrow>
     (\<forall>pre post. line = pre @ key @ post \<longrightarrow> takeWhile cls (skip_spaces white_space post) = [])"
proof (induction line)
  case Nil
  then show ?case by (auto simp: skip_spaces_Nil)
next
  case (Cons c s)
  let ?grp = "\<lambda>post. takeWhile cls (skip_spaces white_space post)"
  have here: "(starts_with (c # s) key \<and> ?grp (drop (length key) (c # s)) \<noteq> []) \<longleftrightarrow>
                (\<exists>post. c # s = key @ post \<and> ?grp post \<noteq> [])"
    by (auto simp: starts_with_iff)
  have split: "(\<forall>pre post. c # s = pre @ key @ post \<longrightarrow> ?grp post = []) \<longleftrightarrow>
                 (\<forall>post. c # s = key @ post \<longrightarrow> ?grp post = [])
                 \<and> (\<forall>pre post. s = pre @ key @ post \<longrightarrow> ?grp post = [])"
  proof
    assume a: "\<forall>pre post. c # s = pre @ key @ post \<longrightarrow> ?grp post = []"
    show "(\<forall>post. c # s = key @ post \<longrightarrow> ?grp post = [])
                 \<and> (\<forall>pre post. s = pre @ key @ post \<longrightarrow> ?grp post = [])"
    proof (intro conjI allI impI)
      fix post assume "c # s = key @ post"
      then have "c # s = [] @ key @ post" by simp
      with a show "?grp post = []" by blast
    next
      fix pre post assume "s = pre @ key @ post"
      then have "c # s = (c # pre) @ key @ post" by simp
      with a show "?grp post = []" by blast
    qed
  next
    assume b: "(\<forall>post. c # s = key @ post \<longrightarrow> ?grp post = [])
                 \<and> (\<forall>pre post. s = pre @ key @ post \<longrightarrow> ?grp post = [])"
    show "\<forall>pre post. c # s = pre @ key @ post \<longrightarrow> ?grp post = []"
    proof (intro allI impI)
      fix pre post assume e: "c # s = pre @ key @ post"
      show "?grp post = []"
      proof (cases pre)
        case Nil
        with e b show ?thesis by simp
      next
        case (Cons d pre')
        with e have "s = pre' @ key @ post" by simp
        with b show ?thesis by blast
      qed
    qed
  qed
  show ?case
    unfolding split using here Cons.IH by (auto simp: Let_def)
qed

lemma regex_capture_Some:
  "regex_capture key cls line = Some g \<Longrightarrow>
     \<exists>pre post. line = pre @ key @ post \<and> g = takeWhile cls (skip_spaces white_space post)
       \<and> g \<noteq> []
       \<and> (\<forall>pre' post'. line = pre' @ key @ post' \<and> length pre' < length pre \<longrightarrow>
             takeWhile cls (skip_spaces white_space post') = [])"
proof (induction line)
  case Nil
  then show ?case by simp
next
  case (Cons c s)
  let ?grp = "\<lambda>post. takeWhile cls (skip_spaces white_space post)"
  show ?case
  proof (cases "starts_with (c # s) key \<and> ?grp (drop (length key) (c # s)) \<noteq> []")
    case True
    then obtain post where p: "c # s = key @ post" by (auto simp: starts_with_iff)
    then have d: "drop (length key) (c # s) = post" by simp
    from True Cons.prems d have g: "g = ?grp post" "g \<noteq> []" by (auto simp: Let_def)
    from p have "c # s = [] @ key @ post" by simp
    with g show ?thesis by (intro exI[of _ "[]"] exI[of _ post]) simp
  next
    case False
    with Cons.prems have "regex_capture key cls s = Some g" by (auto simp: Let_def)
    from Cons.IH [OF this] obtain pre post where
      e: "s = pre @ key @ post" and g: "g = ?grp post" "g \<noteq> []"
      and left: "\<forall>pre' post'. s = pre' @ key @ post' \<and> length pre' < length pre \<longrightarrow> ?grp post' = []"
      by blast
    have "\<forall>pre' post'. c # s = pre' @ key @ post' \<and> length pre' < length (c # pre) \<longrightarrow> ?grp post' = []"
    proof (intro allI impI, elim conjE)
      fix pre' post'
      assume e': "c # s = pre' @ key @ post'" and l: "length pre' < length (c # pre)"
      show "?grp post' = []"
      proof (cases pre')
        case Nil
        with e' have sw: "starts_with (c # s) key" and "drop (length key) (c # s) = post'"
          by (auto simp: starts_with_iff)
        with False show ?thesis by auto
      next
        case (Cons d pre'')
        with e' l have "s = pre'' @ key @ post'" "length pre'' < length pre" by simp_all
        with left show ?thesis by blast
      qed
    qed
    moreover from e have "c # s = (c # pre) @ key @ post" by simp
    ultimately show ?thesis using g by (intro exI[of _ "c # pre"] exI[of _ post]) simp
  qed
qed

subsection \<open>Arrays and the update log\<close>

lemma slice_from_nonneg: "0 \<le> k \<Longrightarrow> slice_from k xs = drop (nat k) xs"
  by (auto simp: slice_from_def Let_def min_def)

lemma slice_from_last: "slice_from (- 50) xs = drop (length xs - 50) xs"
proof -
  have "nat (int (length xs) - 50) = length xs - 50" by arith
  then show ?thesis by (auto simp: slice_from_def Let_def max_def)
qed

lemma keys_remove_key: "fst ` set (remove_key k kvs) = fst ` set kvs - {k}"
  by (auto simp: remove_key_def)

lemma snd_monitor_updates:
  "snd (monitor_updates s a) =
     s\<lparr>sentUpdateIndices := (sentUpdateIndices s)(a \<mapsto> int (length (updates_or_empty s a)) - 1)\<rparr>"
  by (simp add: monitor_updates_def Let_def)

lemma fst_monitor_updates:
  "fst (monitor_updates s a) =
     (if list_ex log_throws (slice_from (lastSentIndex s a + 1) (updates_or_empty s a))
      then Poll_500
      else Poll_200 (slice_from (lastSentIndex s a + 1) (updates_or_empty s a)))"
  by (simp add: monitor_updates_def Let_def)

lemma updates_after_poll:
  "updates_or_empty (snd (monitor_updates s a)) b = updates_or_empty s b"
  by (simp add: snd_monitor_updates updates_or_empty_def)

lemma log_push_update:
  "updates_or_empty (push_update s a u) a = slice_from (- 50) (updates_or_empty s a @ [u])"
  by (simp add: push_update_def updates_or_empty_def)

lemma log_push_updates:
  "length (updates_or_empty s a) + length us \<le> 50 \<Longrightarrow>
     updates_or_empty (push_updates s a us) a = updates_or_empty s a @ us"
proof (induction us arbitrary: s)
  case Nil
  then show ?case by (simp add: push_updates_def)
next
  case (Cons u us)
  from Cons.prems have one: "updates_or_empty (push_update s a u) a = updates_or_empty s a @ [u]"
    by (simp add: log_push_update slice_from_last)
  with Cons.prems have "length (updates_or_empty (push_update s a u) a) + length us \<le> 50"
    by simp
  then have "updates_or_empty (push_updates (push_update s a u) a us) a
               = updates_or_empty (push_update s a u) a @ us"
    by (rule Cons.IH)
  with one show ?case by (simp add: push_updates_def)
qed

lemma watermarks_push_updates: "sentUpdateIndices (push_updates s a us) = sentUpdateIndices s"
  by (induction us arbitrary: s) (simp_all add: push_updates_def push_update_def)

lemma trimmed_samples:
  "js_trim ''one'' = ''one''" "js_trim ''two'' = ''two''" "js_trim ''three'' = ''three''"
  "js_trim ''late'' = ''late''" "js_trim [] = []"
  by code_simp+

lemma two_updates_log:
  "updates_or_empty two_updates_server agentA =
     [ErrorUpdate ''one'' ''t1'' agentA, ErrorUpdate ''two'' ''t2'' agentA]"
  by (simp add: two_updates_server_def stderr_data_def started_server_def push_update_def
      updates_or_empty_def slice_from_last trimmed_samples)

lemma full_log: "updates_or_empty full_server agentA = map numbered [0..<50]"
  by (simp add: full_server_def updates_or_empty_def)

subsection \<open>Polling\<close>

text \<open>
  Claim C1 as the specification states it fails on the route: with two updates in the log,
  the reply to a second poll does not contain the updates of the first reply. The first
  poll has already moved the watermark, whether or not its reply arrived.
\<close>

theorem repoll_counterexample:
  "\<not> set (reply_updates (fst (monitor_updates two_updates_server agentA)))
      \<subseteq> set (reply_updates
              (fst (monitor_updates (snd (monitor_updates two_updates_server agentA)) agentA)))"
proof -
  have first: "fst (monitor_updates two_updates_server agentA)
      = Poll_200 [ErrorUpdate ''one'' ''t1'' agentA, ErrorUpdate ''two'' ''t2'' agentA]"
    by code_simp
  have second: "fst (monitor_updates (snd (monitor_updates two_updates_server agentA)) agentA)
      = Poll_200 []"
    by code_simp
  show ?thesis by (simp add: first second reply_updates_def)
qed

text \<open>
  Claim C1, amended: every poll stores the watermark \<open>n - 1\<close>, where \<open>n\<close> is the length of
  the agent's array at that moment, when it computes its reply, whatever the reply is. When
  \<open>n\<close> is not 1, a second poll right after it returns the empty list. When \<open>n\<close> is not 1 and
  further updates are pushed while the array stays within its 50 entries (\<open>n\<close> and the
  number of the new ones are at most 50 together, so that nothing is dropped), the next
  poll returns the new updates only, and it answers with status 500 instead when the
  message of one of them makes the log statement throw: the entries of the first reply are
  not sent again.
\<close>

theorem poll_watermark:
  fixes s :: server and a :: agent_id and appended :: "update list"
  defines "n \<equiv> length (updates_or_empty s a)"
  defines "s1 \<equiv> snd (monitor_updates s a)"
  shows "sentUpdateIndices s1 a = Some (int n - 1)
       \<and> (n \<noteq> 1 \<longrightarrow> fst (monitor_updates s1 a) = Poll_200 [])
       \<and> (n \<noteq> 1 \<and> n + length appended \<le> 50 \<longrightarrow>
            fst (monitor_updates (push_updates s1 a appended) a)
              = (if list_ex log_throws appended then Poll_500 else Poll_200 appended))"
proof -
  have w: "sentUpdateIndices s1 a = Some (int n - 1)"
    by (simp add: s1_def n_def snd_monitor_updates)
  have gen: "fst (monitor_updates s' a) =
               (if list_ex log_throws (drop n (updates_or_empty s' a)) then Poll_500
                else Poll_200 (drop n (updates_or_empty s' a)))"
    if "n \<noteq> 1" "sentUpdateIndices s' a = sentUpdateIndices s1 a" for s'
  proof -
    from that w have "lastSentIndex s' a = int n - 1"
      by (auto simp: lastSentIndex_def)
    then show ?thesis
      by (simp add: fst_monitor_updates slice_from_nonneg)
  qed
  have same: "updates_or_empty s1 a = updates_or_empty s a"
    by (simp add: s1_def updates_after_poll)
  with gen[of s1] have again: "n \<noteq> 1 \<longrightarrow> fst (monitor_updates s1 a) = Poll_200 []"
    by (simp add: n_def)
  have later: "n \<noteq> 1 \<and> n + length appended \<le> 50 \<longrightarrow>
            fst (monitor_updates (push_updates s1 a appended) a)
              = (if list_ex log_throws appended then Poll_500 else Poll_200 appended)"
  proof (intro impI, elim conjE)
    assume h: "n \<noteq> 1" and room: "n + length appended \<le> 50"
    from room same have "length (updates_or_empty s1 a) + length appended \<le> 50"
      by (simp add: n_def)
    then have e: "updates_or_empty (push_updates s1 a appended) a = updates_or_empty s a @ appended"
      by (simp add: log_push_updates same)
    have "sentUpdateIndices (push_updates s1 a appended) a = sentUpdateIndices s1 a"
      by (simp add: watermarks_push_updates)
    with h have "fst (monitor_updates (push_updates s1 a appended) a) =
               (if list_ex log_throws (drop n (updates_or_empty (push_updates s1 a appended) a))
                then Poll_500
                else Poll_200 (drop n (updates_or_empty (push_updates s1 a appended) a)))"
      by (rule gen)
    with e show "fst (monitor_updates (push_updates s1 a appended) a)
              = (if list_ex log_throws appended then Poll_500 else Poll_200 appended)"
      by (simp add: n_def)
  qed
  show ?thesis by (intro conjI) (fact w, fact again, fact later)
qed

theorem poll_watermark_witness:
  "sentUpdateIndices (snd (monitor_updates two_updates_server agentA)) agentA = Some 1
   \<and> fst (monitor_updates (snd (monitor_updates two_updates_server agentA)) agentA) = Poll_200 []
   \<and> fst (monitor_updates
            (push_updates (snd (monitor_updates two_updates_server agentA)) agentA
               [ErrorUpdate ''three'' ''t3'' agentA])
            agentA)
       = Poll_200 [ErrorUpdate ''three'' ''t3'' agentA]
   \<and> fst (monitor_updates
            (push_updates (snd (monitor_updates two_updates_server agentA)) agentA
               [Structured numeric_message_line Other_message ''t3'' agentA ''/srv/app''])
            agentA)
       = Poll_500"
proof -
  have n: "length (updates_or_empty two_updates_server agentA) = 2"
    by (simp add: two_updates_log)
  note t = poll_watermark [of two_updates_server agentA]
  from t [THEN conjunct1] n
  have one: "sentUpdateIndices (snd (monitor_updates two_updates_server agentA)) agentA = Some 1"
    by simp
  from t [THEN conjunct2, THEN conjunct1] n
  have two: "fst (monitor_updates (snd (monitor_updates two_updates_server agentA)) agentA)
               = Poll_200 []"
    by simp
  from t [of "[ErrorUpdate ''three'' ''t3'' agentA]", THEN conjunct2, THEN conjunct2] n
  have three: "fst (monitor_updates
            (push_updates (snd (monitor_updates two_updates_server agentA)) agentA
               [ErrorUpdate ''three'' ''t3'' agentA])
            agentA)
       = Poll_200 [ErrorUpdate ''three'' ''t3'' agentA]"
    by (simp add: log_throws_def)
  from t [of "[Structured numeric_message_line Other_message ''t3'' agentA ''/srv/app'']",
          THEN conjunct2, THEN conjunct2] n
  have four: "fst (monitor_updates
            (push_updates (snd (monitor_updates two_updates_server agentA)) agentA
               [Structured numeric_message_line Other_message ''t3'' agentA ''/srv/app''])
            agentA)
       = Poll_500"
    by (simp add: log_throws_def)
  from one two three four show ?thesis by (intro conjI)
qed

text \<open>
  Claim C2 at a failing input: one update, a poll (the watermark becomes 0), a second
  update, a second poll. The stored 0 is read as "nothing sent", so the second reply holds
  the update at position 0 again, which is not above the watermark.
\<close>

theorem poll_resends_first_update:
  "sentUpdateIndices one_polled_server agentA = Some 0
   \<and> fst (monitor_updates (stderr_data one_polled_server agentA ''t2'' ''two'') agentA)
      = Poll_200 [ErrorUpdate ''one'' ''t1'' agentA, ErrorUpdate ''two'' ''t2'' agentA]"
  by code_simp

text \<open>
  Once the array holds 50 entries and all of them have been polled, the watermark stays at
  49 and the array stays 50 long: the update appended next, and every later one, is never
  returned.
\<close>

lemma full_buffer_starves:
  assumes "length (updates_or_empty s a) = 50" and "sentUpdateIndices s a = Some 49"
  shows "fst (monitor_updates (push_update s a u) a) = Poll_200 []"
proof -
  have "lastSentIndex (push_update s a u) a = 49"
    using assms(2) by (simp add: lastSentIndex_def push_update_def)
  moreover have "length (updates_or_empty (push_update s a u) a) = 50"
    using assms(1) by (simp add: log_push_update slice_from_last)
  ultimately show ?thesis
    by (simp add: fst_monitor_updates slice_from_nonneg)
qed

text \<open>
  Claim C3 as the specification states it fails: the index of an update is its position in
  the array, and trimming moves the survivors. In a full array the update at position 1 is
  at position 0 after the next append, and position 49 names a different update.
\<close>

theorem eviction_renumbers_counterexample:
  "updates_or_empty full_server agentA ! 1 = numbered 1
   \<and> updates_or_empty (stderr_data full_server agentA ''t'' ''late'') agentA ! 0 = numbered 1
   \<and> updates_or_empty full_server agentA ! 49 = numbered 49
   \<and> updates_or_empty (stderr_data full_server agentA ''t'' ''late'') agentA ! 49
       = ErrorUpdate ''late'' ''t'' agentA
   \<and> numbered 49 \<noteq> ErrorUpdate ''late'' ''t'' agentA"
proof -
  have l: "listeners full_server agentA \<noteq> None"
    by (simp add: full_server_def started_server_def)
  have e: "updates_or_empty (stderr_data full_server agentA ''t'' ''late'') agentA
        = drop 1 (map numbered [0..<50] @ [ErrorUpdate ''late'' ''t'' agentA])"
    using l by (auto simp: stderr_data_def log_push_update full_log slice_from_last
        trimmed_samples)
  have ne: "replicate 49 CHR ''x'' \<noteq> ''late''"
  proof
    assume "replicate 49 CHR ''x'' = ''late''"
    then have "length (replicate 49 CHR ''x'') = length ''late''" by simp
    then show False by simp
  qed
  show ?thesis
    unfolding e full_log using ne by (simp add: nth_append numbered_def)
qed

text \<open>
  Claim C3, amended: an update has no index of its own; its index is its position in the
  agent's array. Appending to an array of fewer than 50 entries leaves every entry at its
  position and puts the new one at the end. Appending to an array of 50 entries drops the
  oldest, moves the entry at position \<open>i + 1\<close> to position \<open>i\<close> and puts the new one at
  position 49.
\<close>

theorem push_update_positions:
  fixes s :: server and a :: agent_id and u :: update
  defines "xs \<equiv> updates_or_empty s a"
  defines "ys \<equiv> updates_or_empty (push_update s a u) a"
  shows "(length xs < 50 \<longrightarrow> ys = xs @ [u])
       \<and> (length xs = 50 \<longrightarrow> length ys = 50 \<and> (\<forall>i<49. ys ! i = xs ! Suc i) \<and> ys ! 49 = u)"
proof -
  have ys: "ys = drop (length xs + 1 - 50) (xs @ [u])"
    by (simp add: ys_def xs_def log_push_update slice_from_last)
  have "ys = xs @ [u]" if "length xs < 50"
    using that ys by simp
  moreover have "length ys = 50 \<and> (\<forall>i<49. ys ! i = xs ! Suc i) \<and> ys ! 49 = u"
    if "length xs = 50"
    using that ys by (auto simp: nth_append)
  ultimately show ?thesis by blast
qed

theorem push_update_positions_witness:
  "updates_or_empty (push_update started_server agentA (numbered 0)) agentA = [numbered 0]
   \<and> updates_or_empty (push_update full_server agentA (numbered 50)) agentA ! 49 = numbered 50
   \<and> updates_or_empty (push_update full_server agentA (numbered 50)) agentA ! 0 = numbered 1"
proof -
  have a: "updates_or_empty started_server agentA = []"
    by (simp add: started_server_def updates_or_empty_def)
  show ?thesis
    using push_update_positions [of started_server agentA "numbered 0"]
      push_update_positions [of full_server agentA "numbered 50"]
    by (simp add: a full_log)
qed

text \<open>
  Claim C4 as the specification states it fails: a poll for an agent that was never
  started is answered with status 200 and the empty list.
\<close>

theorem poll_unknown_counterexample:
  "fst (monitor_updates empty_server ''agent_0_none'') = Poll_200 []"
  by (simp add: fst_monitor_updates empty_server_def updates_or_empty_def slice_from_def)

text \<open>
  Claim C4, amended: the poll route has no reply for an unknown agent. It answers with
  status 200 and the list of the new updates, or with status 500 when the log statement
  throws on one of them, which is a decoded line whose message is neither a string nor
  absent; the line with the message 42 is one. For an agent without an array (never started,
  or stopped and cleaned up) the reply is status 200 with the empty list, as it is when
  nothing is new, and the watermark \<open>-1\<close> is stored for that agent.
\<close>

theorem poll_unknown_session:
  "fst (monitor_updates s a) =
     (if \<exists>u\<in>set (slice_from (lastSentIndex s a + 1) (updates_or_empty s a)). log_throws u
      then Poll_500
      else Poll_200 (slice_from (lastSentIndex s a + 1) (updates_or_empty s a)))
   \<and> (\<forall>u. log_throws u \<longleftrightarrow> (\<exists>line t b loc. u = Structured line Other_message t b loc))
   \<and> (monitorUpdates s a = None \<longrightarrow>
        monitor_updates s a =
          (Poll_200 [], s\<lparr>sentUpdateIndices := (sentUpdateIndices s)(a \<mapsto> - 1)\<rparr>))
   \<and> updates_or_empty numeric_message_server agentA
       = [Structured numeric_message_line Other_message ''t1'' agentA ''/srv/app'']
   \<and> fst (monitor_updates numeric_message_server agentA) = Poll_500"
proof -
  have c1: "fst (monitor_updates s a) =
     (if \<exists>u\<in>set (slice_from (lastSentIndex s a + 1) (updates_or_empty s a)). log_throws u
      then Poll_500
      else Poll_200 (slice_from (lastSentIndex s a + 1) (updates_or_empty s a)))"
    by (simp add: fst_monitor_updates list_ex_iff)
  have c2: "\<forall>u. log_throws u \<longleftrightarrow> (\<exists>line t b loc. u = Structured line Other_message t b loc)"
  proof
    fix u
    show "log_throws u \<longleftrightarrow> (\<exists>line t b loc. u = Structured line Other_message t b loc)"
      by (cases u) (simp_all add: log_throws_def)
  qed
  have c3: "monitorUpdates s a = None \<longrightarrow>
        monitor_updates s a =
          (Poll_200 [], s\<lparr>sentUpdateIndices := (sentUpdateIndices s)(a \<mapsto> - 1)\<rparr>)"
    by (simp add: monitor_updates_def Let_def updates_or_empty_def slice_from_def)
  have c4: "updates_or_empty numeric_message_server agentA
       = [Structured numeric_message_line Other_message ''t1'' agentA ''/srv/app'']"
    by code_simp
  have c5: "fst (monitor_updates numeric_message_server agentA) = Poll_500"
    by code_simp
  show ?thesis by (intro conjI) (fact c1, fact c2, fact c3, fact c4, fact c5)
qed

theorem poll_unknown_session_witness:
  "monitorUpdates empty_server ''agent_0_none'' = None
   \<and> monitor_updates empty_server ''agent_0_none'' =
       (Poll_200 [], empty_server\<lparr>sentUpdateIndices := [''agent_0_none'' \<mapsto> - 1]\<rparr>)
   \<and> fst (monitor_updates numeric_message_server agentA) = Poll_500"
proof -
  have h: "monitorUpdates empty_server ''agent_0_none'' = None"
    by (simp add: empty_server_def)
  note t = poll_unknown_session [of empty_server "''agent_0_none''"]
  from t [THEN conjunct2, THEN conjunct2, THEN conjunct1] h
  have unknown: "monitor_updates empty_server ''agent_0_none'' =
       (Poll_200 [], empty_server\<lparr>sentUpdateIndices := [''agent_0_none'' \<mapsto> - 1]\<rparr>)"
    by (simp add: empty_server_def)
  note failed = t [THEN conjunct2, THEN conjunct2, THEN conjunct2, THEN conjunct2]
  from h unknown failed show ?thesis by (intro conjI)
qed


subsection \<open>Chunks and lines\<close>

lemma set_log_twice: "set_log (set_log s a us) a vs = set_log s a vs"
  by (simp add: set_log_def)

lemma stdout_line_result:
  "stdout_line parse a loc (u, b, p, s) stamped =
     (case line_result parse a loc b stamped of
        (us, b', pr) \<Rightarrow> (u @ us, b', p @ pr, set_log s a (u @ us)))"
  by (cases stamped)
    (simp add: stdout_line_def line_result_def Let_def set_log_def
      split: json_outcome.splits option.splits)

lemma foldl_stdout_line:
  "foldl (stdout_line parse a loc) (u, b, p, s) lines =
     (case lines_result parse a loc b lines of
        (us, b', pr) \<Rightarrow> (u @ us, b', p @ pr, if lines = [] then s else set_log s a (u @ us)))"
proof (induction lines arbitrary: u b p s)
  case Nil
  then show ?case by simp
next
  case (Cons line rest)
  show ?case
    by (simp add: stdout_line_result Cons.IH set_log_twice split: prod.splits)
qed

lemma lines_result_append:
  "lines_result parse a loc b (xs @ ys) =
     (case lines_result parse a loc b xs of
        (us, b1, pr) \<Rightarrow>
          (case lines_result parse a loc b1 ys of
             (us', b2, pr') \<Rightarrow> (us @ us', b2, pr @ pr')))"
  by (induction xs arbitrary: b) (auto split: prod.splits)

lemma slice_last_absorb: "slice_from (- 50) (slice_from (- 50) xs @ ys) = slice_from (- 50) (xs @ ys)"
proof (cases "length xs \<le> 50")
  case True
  then show ?thesis by (simp add: slice_from_last)
next
  case False
  then have "length xs + length ys - (length xs - 50 + 50) + (length xs - 50)
               = length xs + length ys - 50" by arith
  then show ?thesis by (simp add: slice_from_last)
qed

lemma stdout_lines_eq:
  "stdout_lines parse s a lines =
     (case listeners s a of
        None \<Rightarrow> (s, [])
      | Some l \<Rightarrow>
          (case lines_result parse a (deployedLocation l) (bufferLines l) lines of
             (us, b', pr) \<Rightarrow>
               ((if lines = [] then s else set_log s a (updates_or_empty s a @ us))
                  \<lparr>listeners := (listeners s)(a \<mapsto> l\<lparr>processStarted := True, bufferLines := b'\<rparr>)\<rparr>,
                pr)))"
  by (auto simp: stdout_lines_def foldl_stdout_line set_log_def split: option.splits prod.splits)

lemma split_acc_no_sep: "sep \<notin> set s \<Longrightarrow> split_acc sep acc s = [rev acc @ s]"
  by (induction s arbitrary: acc) auto

lemma split_acc_at_sep:
  "sep \<notin> set xs \<Longrightarrow> split_acc sep acc (xs @ sep # ys) = (rev acc @ xs) # split_acc sep [] ys"
  by (induction xs arbitrary: acc) auto

lemma chunk_lines_fragment:
  "CHR 0x0A \<notin> set f \<Longrightarrow> chunk_lines f = (if js_trim f \<noteq> [] then [f] else [])"
  by (simp add: chunk_lines_def split_on_def split_acc_no_sep)

lemma chunk_lines_terminated:
  "CHR 0x0A \<notin> set f \<Longrightarrow> chunk_lines (f @ [CHR 0x0A]) = (if js_trim f \<noteq> [] then [f] else [])"
  by (simp add: chunk_lines_def split_on_def split_acc_at_sep trimmed_samples)

text \<open>
  Claim C5 as the specification states it fails: the line \<^verbatim>\<open>RISK: HIGH (82% confidence)\<close>
  delivered whole gives one update; delivered in two chunks it gives two updates, one for
  each fragment.
\<close>

theorem split_line_counterexample:
  "updates_or_empty
     (fst (stdout_data text_decoder started_server agentA ''t1''
            (''RISK: HIGH (82% confidence)'' @ [CHR 0x0A]))) agentA
     = [ConsoleOutput ''RISK: HIGH (82% confidence)'' ''t1'' agentA ''/srv/app'' None]
   \<and> updates_or_empty
     (fst (stdout_data text_decoder
            (fst (stdout_data text_decoder started_server agentA ''t1'' ''RISK: HI''))
            agentA ''t2'' (''GH (82% confidence)'' @ [CHR 0x0A]))) agentA
     = [ConsoleOutput ''RISK: HI'' ''t1'' agentA ''/srv/app'' None,
        ConsoleOutput ''GH (82% confidence)'' ''t2'' agentA ''/srv/app'' None]"
  by code_simp

text \<open>
  Claim C5, amended: the parser interprets every chunk on its own and keeps no unfinished
  line between chunks. The state after two chunks is the state after the lines of the
  first chunk followed by the lines of the second, and so is what was printed. The lines of
  a chunk are its pieces between line feeds that are not blank, and a piece of white space
  only, be it a no-break space or a line separator, is blank; the zero width space, the
  next-line character and the Mongolian vowel separator are no white space. So a line that
  is not blank
  and is delivered whole, ended by a line feed, is one line; delivered as two fragments in
  two chunks, it gives a line for each fragment that is not blank: two lines when neither
  is.
\<close>

theorem chunks_parsed_separately:
  "fst (stdout_data parse (fst (stdout_data parse s a t1 c1)) a t2 c2)
     = fst (stdout_lines parse s a
              (map (Pair t1) (chunk_lines c1) @ map (Pair t2) (chunk_lines c2)))
   \<and> snd (stdout_data parse s a t1 c1)
       @ snd (stdout_data parse (fst (stdout_data parse s a t1 c1)) a t2 c2)
     = snd (stdout_lines parse s a
              (map (Pair t1) (chunk_lines c1) @ map (Pair t2) (chunk_lines c2)))
   \<and> (CHR 0x0A \<notin> set f1 \<union> set f2 \<and> js_trim (f1 @ f2) \<noteq> [] \<longrightarrow>
        chunk_lines (f1 @ f2 @ [CHR 0x0A]) = [f1 @ f2]
        \<and> chunk_lines f1 @ chunk_lines (f2 @ [CHR 0x0A])
            = filter (\<lambda>fragment. js_trim fragment \<noteq> []) [f1, f2])
   \<and> chunk_lines (''RISK: HI'' @ [CHR 0x0A, CHR 0xC2, CHR 0xA0, CHR 0x20, CHR 0x0A, CHR 0x0D,
                     CHR 0x0A, CHR 0xE2, CHR 0x80, CHR 0xA8, CHR 0xEF, CHR 0xBB, CHR 0xBF, CHR 0x0A]
                   @ ''GH'')
       = [''RISK: HI'', ''GH'']
   \<and> js_trim (every_space @ ''RISK: HI'' @ every_space) = ''RISK: HI''
   \<and> length every_space = 62
   \<and> chunk_lines (every_space @ [CHR 0x0A] @ ''GH'') = [''GH'']
   \<and> map js_trim [ [CHR 0xE2, CHR 0x80, CHR 0x8B], [CHR 0xC2, CHR 0x85], [CHR 0xE1, CHR 0xA0, CHR 0x8E],
                    ''a b'' ]
       = [ [CHR 0xE2, CHR 0x80, CHR 0x8B], [CHR 0xC2, CHR 0x85], [CHR 0xE1, CHR 0xA0, CHR 0x8E],
           ''a b'' ]"
proof -
  let ?l1 = "map (Pair t1) (chunk_lines c1)" and ?l2 = "map (Pair t2) (chunk_lines c2)"
  have chunks:
    "fst (stdout_data parse (fst (stdout_data parse s a t1 c1)) a t2 c2)
       = fst (stdout_lines parse s a (?l1 @ ?l2))
     \<and> snd (stdout_data parse s a t1 c1)
         @ snd (stdout_data parse (fst (stdout_data parse s a t1 c1)) a t2 c2)
       = snd (stdout_lines parse s a (?l1 @ ?l2))"
  proof (cases "listeners s a")
    case None
    then show ?thesis by (simp add: stdout_data_def stdout_lines_def)
  next
    case (Some l)
    obtain u1 b1 p1 where r1:
      "lines_result parse a (deployedLocation l) (bufferLines l) ?l1 = (u1, b1, p1)"
      by (metis prod_cases3)
    obtain u2 b2 p2 where r2:
      "lines_result parse a (deployedLocation l) b1 ?l2 = (u2, b2, p2)"
      by (metis prod_cases3)
    have e1: "chunk_lines c1 = [] \<Longrightarrow> u1 = [] \<and> b1 = bufferLines l \<and> p1 = []"
      using r1 by simp
    have e2: "chunk_lines c2 = [] \<Longrightarrow> u2 = [] \<and> b2 = b1 \<and> p2 = []"
      using r2 by simp
    show ?thesis
      using Some r1 r2 e1 e2
      by (auto simp: stdout_data_def stdout_lines_eq lines_result_append set_log_def
          updates_or_empty_def slice_last_absorb)
  qed
  have frags: "CHR 0x0A \<notin> set f1 \<union> set f2 \<and> js_trim (f1 @ f2) \<noteq> [] \<longrightarrow>
        chunk_lines (f1 @ f2 @ [CHR 0x0A]) = [f1 @ f2]
        \<and> chunk_lines f1 @ chunk_lines (f2 @ [CHR 0x0A])
            = filter (\<lambda>fragment. js_trim fragment \<noteq> []) [f1, f2]"
  proof (intro impI, elim conjE)
    assume a: "CHR 0x0A \<notin> set f1 \<union> set f2" and whole: "js_trim (f1 @ f2) \<noteq> []"
    from a have "CHR 0x0A \<notin> set (f1 @ f2)" by simp
    then have "chunk_lines ((f1 @ f2) @ [CHR 0x0A]) = (if js_trim (f1 @ f2) \<noteq> [] then [f1 @ f2] else [])"
      by (rule chunk_lines_terminated)
    with whole have one: "chunk_lines (f1 @ f2 @ [CHR 0x0A]) = [f1 @ f2]" by simp
    from a have "CHR 0x0A \<notin> set f1" "CHR 0x0A \<notin> set f2" by simp_all
    then have two: "chunk_lines f1 @ chunk_lines (f2 @ [CHR 0x0A])
            = filter (\<lambda>fragment. js_trim fragment \<noteq> []) [f1, f2]"
      by (simp add: chunk_lines_fragment chunk_lines_terminated)
    from one two show "chunk_lines (f1 @ f2 @ [CHR 0x0A]) = [f1 @ f2]
        \<and> chunk_lines f1 @ chunk_lines (f2 @ [CHR 0x0A])
            = filter (\<lambda>fragment. js_trim fragment \<noteq> []) [f1, f2]"
      by (rule conjI)
  qed
  have blank: "chunk_lines (''RISK: HI'' @ [CHR 0x0A, CHR 0xC2, CHR 0xA0, CHR 0x20, CHR 0x0A, CHR 0x0D,
                     CHR 0x0A, CHR 0xE2, CHR 0x80, CHR 0xA8, CHR 0xEF, CHR 0xBB, CHR 0xBF, CHR 0x0A]
                   @ ''GH'')
       = [''RISK: HI'', ''GH'']"
    by code_simp
  have trimmed: "js_trim (every_space @ ''RISK: HI'' @ every_space) = ''RISK: HI''"
    by code_simp
  have counted: "length every_space = 62"
    by code_simp
  have dropped: "chunk_lines (every_space @ [CHR 0x0A] @ ''GH'') = [''GH'']"
    by code_simp
  have kept: "map js_trim [ [CHR 0xE2, CHR 0x80, CHR 0x8B], [CHR 0xC2, CHR 0x85], [CHR 0xE1, CHR 0xA0, CHR 0x8E],
                    ''a b'' ]
       = [ [CHR 0xE2, CHR 0x80, CHR 0x8B], [CHR 0xC2, CHR 0x85], [CHR 0xE1, CHR 0xA0, CHR 0x8E],
           ''a b'' ]"
    by code_simp
  from chunks have c1: "fst (stdout_data parse (fst (stdout_data parse s a t1 c1)) a t2 c2)
       = fst (stdout_lines parse s a (?l1 @ ?l2))"
    and c2: "snd (stdout_data parse s a t1 c1)
         @ snd (stdout_data parse (fst (stdout_data parse s a t1 c1)) a t2 c2)
       = snd (stdout_lines parse s a (?l1 @ ?l2))"
    by simp_all
  show ?thesis
    by (intro conjI)
      (fact c1, fact c2, fact frags, fact blank, fact trimmed, fact counted, fact dropped, fact kept)
qed

theorem chunks_parsed_separately_witness:
  "CHR 0x0A \<notin> set ''RISK: HI'' \<union> set ''GH (82% confidence)''
   \<and> js_trim (''RISK: HI'' @ ''GH (82% confidence)'') \<noteq> []
   \<and> chunk_lines (''RISK: HI'' @ ''GH (82% confidence)'' @ [CHR 0x0A])
       = [''RISK: HI'' @ ''GH (82% confidence)'']
   \<and> chunk_lines ''RISK: HI'' @ chunk_lines (''GH (82% confidence)'' @ [CHR 0x0A])
       = [''RISK: HI'', ''GH (82% confidence)'']
   \<and> chunk_lines [CHR 0xC2, CHR 0xA0] @ chunk_lines (''RISK: HIGH'' @ [CHR 0x0A])
       = [''RISK: HIGH'']"
proof -
  have h1: "CHR 0x0A \<notin> set ''RISK: HI'' \<union> set ''GH (82% confidence)''" by simp
  have h2: "js_trim (''RISK: HI'' @ ''GH (82% confidence)'') \<noteq> []" by code_simp
  have k1: "js_trim ''RISK: HI'' \<noteq> []" by code_simp
  have k2: "js_trim ''GH (82% confidence)'' \<noteq> []" by code_simp
  note imp = chunks_parsed_separately [where ?f1.0 = "''RISK: HI''"
      and ?f2.0 = "''GH (82% confidence)''", THEN conjunct2, THEN conjunct2, THEN conjunct1]
  from h1 h2 have hyp: "CHR 0x0A \<notin> set ''RISK: HI'' \<union> set ''GH (82% confidence)''
     \<and> js_trim (''RISK: HI'' @ ''GH (82% confidence)'') \<noteq> []"
    by (rule conjI)
  from imp hyp have both:
    "chunk_lines (''RISK: HI'' @ ''GH (82% confidence)'' @ [CHR 0x0A])
       = [''RISK: HI'' @ ''GH (82% confidence)'']
     \<and> chunk_lines ''RISK: HI'' @ chunk_lines (''GH (82% confidence)'' @ [CHR 0x0A])
         = filter (\<lambda>fragment. js_trim fragment \<noteq> []) [''RISK: HI'', ''GH (82% confidence)'']"
    by (rule mp)
  from both have whole: "chunk_lines (''RISK: HI'' @ ''GH (82% confidence)'' @ [CHR 0x0A])
       = [''RISK: HI'' @ ''GH (82% confidence)'']"
    by (rule conjunct1)
  from both k1 k2 have split:
    "chunk_lines ''RISK: HI'' @ chunk_lines (''GH (82% confidence)'' @ [CHR 0x0A])
       = [''RISK: HI'', ''GH (82% confidence)'']"
    by simp
  have g1: "CHR 0x0A \<notin> set [CHR 0xC2, CHR 0xA0] \<union> set ''RISK: HIGH''" by simp
  have g2: "js_trim ([CHR 0xC2, CHR 0xA0] @ ''RISK: HIGH'') \<noteq> []" by code_simp
  have b1: "js_trim [CHR 0xC2, CHR 0xA0] = []" by code_simp
  have b2: "js_trim ''RISK: HIGH'' \<noteq> []" by code_simp
  note imp' = chunks_parsed_separately [where ?f1.0 = "[CHR 0xC2, CHR 0xA0]"
      and ?f2.0 = "''RISK: HIGH''", THEN conjunct2, THEN conjunct2, THEN conjunct1]
  from g1 g2 have hyp': "CHR 0x0A \<notin> set [CHR 0xC2, CHR 0xA0] \<union> set ''RISK: HIGH''
     \<and> js_trim ([CHR 0xC2, CHR 0xA0] @ ''RISK: HIGH'') \<noteq> []"
    by (rule conjI)
  from imp' hyp' have
    "chunk_lines ([CHR 0xC2, CHR 0xA0] @ ''RISK: HIGH'' @ [CHR 0x0A])
       = [ [CHR 0xC2, CHR 0xA0] @ ''RISK: HIGH'']
     \<and> chunk_lines [CHR 0xC2, CHR 0xA0] @ chunk_lines (''RISK: HIGH'' @ [CHR 0x0A])
         = filter (\<lambda>fragment. js_trim fragment \<noteq> []) [ [CHR 0xC2, CHR 0xA0], ''RISK: HIGH'']"
    by (rule mp)
  with b1 b2 have blank: "chunk_lines [CHR 0xC2, CHR 0xA0] @ chunk_lines (''RISK: HIGH'' @ [CHR 0x0A])
       = [''RISK: HIGH'']"
    by simp
  from h1 h2 whole split blank show ?thesis by (intro conjI)
qed

subsection \<open>Blocks of metrics\<close>

text \<open>
  Of the lines that are JSON texts the listener keeps those of the two types it knows and
  drops the others; a line that is no JSON text becomes a \<^verbatim>\<open>console_output\<close> update.
\<close>

lemma decoded_lines:
  "updates_or_empty
     (fst (stdout_data sample_decoder started_server agentA ''t1''
             (result_line @ [CHR 0x0A] @ heartbeat_line @ [CHR 0x0A] @ ''42'' @ [CHR 0x0A]
              @ ''ready'' @ [CHR 0x0A] @ numeric_message_line)))
     agentA
     = [Structured result_line String_message ''t1'' agentA ''/srv/app'',
        ConsoleOutput ''ready'' ''t1'' agentA ''/srv/app'' None,
        Structured numeric_message_line Other_message ''t1'' agentA ''/srv/app'']"
  by code_simp

text \<open>
  A line with \<^verbatim>\<open>EXTRACTED FEATURES\<close> behind a block of metrics ends the block before it
  looks for the metrics, and so carries none. Only a line that holds the marker itself
  besides \<^verbatim>\<open>EXTRACTED FEATURES\<close> carries metrics: those of the buffer, which then stays.
\<close>

lemma extracted_features_lines:
  "updates_or_empty
     (fst (stdout_data text_decoder started_server agentA ''t1''
             (loc_line @ [CHR 0x0A] @ ''EXTRACTED FEATURES'' @ [CHR 0x0A])))
     agentA
     = [ConsoleOutput loc_line ''t1'' agentA ''/srv/app'' None,
        ConsoleOutput ''EXTRACTED FEATURES'' ''t1'' agentA ''/srv/app'' None]"
  "updates_or_empty
     (fst (stdout_data text_decoder started_server agentA ''t1''
             (loc_line @ [CHR 0x0A] @ complexity_line @ '' EXTRACTED FEATURES'' @ [CHR 0x0A])))
     agentA
     = [ConsoleOutput loc_line ''t1'' agentA ''/srv/app'' None,
        ConsoleOutput (complexity_line @ '' EXTRACTED FEATURES'') ''t1'' agentA ''/srv/app''
          (Some [(F_loc, ParseInt ''12''), (F_complexity, ParseFloat ''3.5'')])]"
  "map_option bufferLines
     (listeners
        (fst (stdout_data text_decoder started_server agentA ''t1''
                (loc_line @ [CHR 0x0A] @ complexity_line @ '' EXTRACTED FEATURES'' @ [CHR 0x0A])))
        agentA)
     = Some [loc_line, complexity_line @ '' EXTRACTED FEATURES'']"
  by code_simp+

lemma metrics_step_None: "parse_metric_line l = None \<Longrightarrow> metrics_step m l = m"
  by (simp add: metrics_step_def)

lemma metrics_step_Some: "parse_metric_line l = Some (f, v) \<Longrightarrow> metrics_step m l = assign f v m"
  by (simp add: metrics_step_def)

lemma map_of_assign: "map_of (assign k v m) = (map_of m)(k \<mapsto> v)"
  by (induction m) auto

lemma map_of_foldl_metrics:
  "map_of (foldl metrics_step m ls) = map_of (rev (List.map_filter parse_metric_line ls) @ m)"
proof (induction ls arbitrary: m)
  case Nil
  then show ?case by (simp add: List.map_filter_simps)
next
  case (Cons l ls)
  show ?case
  proof (cases "parse_metric_line l")
    case None
    then show ?thesis by (simp add: Cons.IH metrics_step_None List.map_filter_simps)
  next
    case (Some fv)
    then show ?thesis
      by (cases fv) (simp add: Cons.IH metrics_step_Some List.map_filter_simps map_of_assign)
  qed
qed

lemma assign_nonempty: "assign k v m \<noteq> []"
  by (cases m) (auto split: if_splits)

lemma foldl_metrics_empty:
  "foldl metrics_step m ls = [] \<longleftrightarrow> m = [] \<and> (\<forall>l\<in>set ls. parse_metric_line l = None)"
proof (induction ls arbitrary: m)
  case Nil
  then show ?case by simp
next
  case (Cons l ls)
  show ?case
  proof (cases "parse_metric_line l")
    case None
    then show ?thesis by (simp add: Cons.IH metrics_step_None)
  next
    case (Some fv)
    then show ?thesis
      by (cases fv) (simp add: Cons.IH metrics_step_Some assign_nonempty)
  qed
qed

lemma parseMetricsSection_None:
  "parseMetricsSection ms = None \<longleftrightarrow> (\<forall>l\<in>set ms. parse_metric_line l = None)"
proof -
  have "parseMetricsSection ms = None \<longleftrightarrow> foldl metrics_step [] ms = []"
    by (simp add: parseMetricsSection_def Let_def)
  also have "\<dots> \<longleftrightarrow> (\<forall>l\<in>set ms. parse_metric_line l = None)"
    by (simp only: foldl_metrics_empty simp_thms)
  finally show ?thesis .
qed

lemma parseMetricsSection_Some:
  "parseMetricsSection ms = Some block \<Longrightarrow>
     map_of block = map_of (rev (List.map_filter parse_metric_line ms))"
  by (auto simp: parseMetricsSection_def Let_def map_of_foldl_metrics split: if_splits)

lemma map_of_permuted:
  assumes "mset ys = mset xs" and "distinct (map fst xs)"
  shows "map_of (rev ys) = map_of (rev xs)"
proof -
  from assms(1) have "mset (map fst ys) = mset (map fst xs)" by simp
  with assms(2) have "distinct (map fst ys)"
    by (metis mset_eq_imp_distinct_iff)
  then have d1: "distinct (map fst (rev ys))"
    by (simp only: distinct_rev flip: rev_map)
  from assms(2) have d2: "distinct (map fst (rev xs))"
    by (simp only: distinct_rev flip: rev_map)
  from assms(1) have "set ys = set xs" by (rule mset_eq_setD)
  then have e: "set (rev ys) = set (rev xs)" by (simp only: set_rev)
  from d1 d2 have "(map_of (rev ys) = map_of (rev xs)) = (set (rev ys) = set (rev xs))"
    by (rule map_of_inject_set)
  then show ?thesis using e by (rule iffD2)
qed

lemma mset_map_filter:
  assumes "mset ys = mset xs"
  shows "mset (List.map_filter p ys) = mset (List.map_filter p xs)"
proof -
  have "mset (List.map_filter p zs) = image_mset (the \<circ> p) (filter_mset (\<lambda>x. p x \<noteq> None) (mset zs))" for zs
    unfolding List.map_filter_def by (simp only: mset_map mset_filter)
  with assms show ?thesis by (simp only:)
qed

lemma parse_order_independent:
  assumes "mset ms' = mset ms" and "distinct (map fst (List.map_filter parse_metric_line ms))"
  shows "map_option map_of (parseMetricsSection ms') = map_option map_of (parseMetricsSection ms)"
proof -
  from assms(1) have "mset (List.map_filter parse_metric_line ms') = mset (List.map_filter parse_metric_line ms)"
    by (rule mset_map_filter)
  then have "map_of (rev (List.map_filter parse_metric_line ms')) = map_of (rev (List.map_filter parse_metric_line ms))"
    using assms(2) by (rule map_of_permuted)
  then have m: "map_of (foldl metrics_step [] ms') = map_of (foldl metrics_step [] ms)"
    by (simp add: map_of_foldl_metrics)
  from assms(1) have "set ms' = set ms" by (rule mset_eq_setD)
  then have e: "foldl metrics_step [] ms' = [] \<longleftrightarrow> foldl metrics_step [] ms = []"
    by (simp only: foldl_metrics_empty)
  show ?thesis
  proof (cases "foldl metrics_step [] ms = []")
    case True
    with e show ?thesis by (simp add: parseMetricsSection_def Let_def)
  next
    case False
    with e m show ?thesis by (simp add: parseMetricsSection_def Let_def)
  qed
qed

lemma line_result_marker:
  assumes "js_includes m marker" "\<not> js_includes m ''EXTRACTED FEATURES''" "parse m = Throws"
  shows "line_result parse a loc buf (t, m) = ([ConsoleOutput m t a loc None], buf @ [m], [])"
  using assms by (simp add: line_result_def stdout_line_def Let_def)

lemma line_result_end:
  assumes "\<not> js_includes x marker" "js_trim x \<noteq> []" "parse x = Throws" "buf \<noteq> []"
  shows "line_result parse a loc buf (t, x) =
           ([ConsoleOutput x t a loc None], [],
            (case parseMetricsSection buf of None \<Rightarrow> [] | Some block \<Rightarrow> [block]))"
  using assms by (simp add: line_result_def stdout_line_def Let_def split: option.splits)

lemma lines_result_run:
  assumes "\<forall>m\<in>set ms. js_includes m marker \<and> \<not> js_includes m ''EXTRACTED FEATURES'' \<and> parse m = Throws"
  shows "lines_result parse a loc buf (map (Pair t) ms)
           = (map (\<lambda>m. ConsoleOutput m t a loc None) ms, buf @ ms, [])"
  using assms by (induction ms arbitrary: buf) (simp_all add: line_result_marker)

lemma lines_result_run_end:
  assumes "ms \<noteq> []"
    and "\<forall>m\<in>set ms. js_includes m marker \<and> \<not> js_includes m ''EXTRACTED FEATURES'' \<and> parse m = Throws"
    and "\<not> js_includes x marker" "js_trim x \<noteq> []" "parse x = Throws"
  shows "lines_result parse a loc [] (map (Pair t) (ms @ [x])) =
           (map (\<lambda>m. ConsoleOutput m t a loc None) (ms @ [x]), [],
            (case parseMetricsSection ms of None \<Rightarrow> [] | Some block \<Rightarrow> [block]))"
  using assms by (simp add: lines_result_append lines_result_run line_result_end)


lemma last_assignment:
  "map_of (rev (List.map_filter p ms)) f = Some v \<longleftrightarrow>
     (\<exists>i<length ms. p (ms ! i) = Some (f, v)
        \<and> (\<forall>j. i < j \<and> j < length ms \<longrightarrow> (\<forall>v'. p (ms ! j) \<noteq> Some (f, v'))))"
proof (induction ms rule: rev_induct)
  case Nil
  then show ?case by (simp add: List.map_filter_simps)
next
  case (snoc l ms)
  let ?Q = "\<lambda>ms i. p (ms ! i) = Some (f, v)
        \<and> (\<forall>j. i < j \<and> j < length ms \<longrightarrow> (\<forall>v'. p (ms ! j) \<noteq> Some (f, v')))"
  have mf: "List.map_filter p (ms @ [l]) =
              List.map_filter p ms @ (case p l of None \<Rightarrow> [] | Some x \<Rightarrow> [x])"
    by (simp add: List.map_filter_def split: option.splits)
  show ?case
  proof (cases "\<exists>v'. p l = Some (f, v')")
    case True
    then obtain v' where pl: "p l = Some (f, v')" by blast
    have l: "map_of (rev (List.map_filter p (ms @ [l]))) f = Some v \<longleftrightarrow> v' = v"
      by (auto simp: mf pl)
    have r: "(\<exists>i<length (ms @ [l]). ?Q (ms @ [l]) i) \<longleftrightarrow> v' = v"
    proof
      assume "\<exists>i<length (ms @ [l]). ?Q (ms @ [l]) i"
      then obtain i where i: "i < length (ms @ [l])" "?Q (ms @ [l]) i" by blast
      have "i = length ms"
      proof (rule ccontr)
        assume "i \<noteq> length ms"
        with i(1) have il: "i < length ms" by simp
        from i(2) have later: "\<forall>j. i < j \<and> j < length (ms @ [l]) \<longrightarrow>
            (\<forall>v'. p ((ms @ [l]) ! j) \<noteq> Some (f, v'))" by blast
        have "length ms < length (ms @ [l])" by simp
        with later il have "\<forall>v'. p ((ms @ [l]) ! length ms) \<noteq> Some (f, v')" by blast
        with pl show False by simp
      qed
      with i(2) pl show "v' = v" by simp
    next
      assume "v' = v"
      with pl have "?Q (ms @ [l]) (length ms)" by auto
      then show "\<exists>i<length (ms @ [l]). ?Q (ms @ [l]) i" by (intro exI[of _ "length ms"]) simp
    qed
    from l r show ?thesis by simp
  next
    case False
    then have l: "map_of (rev (List.map_filter p (ms @ [l]))) f
                    = map_of (rev (List.map_filter p ms)) f"
      by (cases "p l") (auto simp: mf)
    have r: "(\<exists>i<length (ms @ [l]). ?Q (ms @ [l]) i) \<longleftrightarrow> (\<exists>i<length ms. ?Q ms i)"
    proof
      assume "\<exists>i<length (ms @ [l]). ?Q (ms @ [l]) i"
      then obtain i where i: "i < length (ms @ [l])" "?Q (ms @ [l]) i" by blast
      from i False have "i \<noteq> length ms" by auto
      with i(1) have il: "i < length ms" by simp
      with i(2) have "?Q ms i" by (auto simp: nth_append)
      with il show "\<exists>i<length ms. ?Q ms i" by blast
    next
      assume "\<exists>i<length ms. ?Q ms i"
      then obtain i where i: "i < length ms" "?Q ms i" by blast
      with False have "?Q (ms @ [l]) i"
        by (auto simp: nth_append)
      with i(1) show "\<exists>i<length (ms @ [l]). ?Q (ms @ [l]) i"
        by (intro exI[of _ i]) simp
    qed
    from l r snoc.IH show ?thesis by simp
  qed
qed

lemma parse_metric_line_labelled: "parse_metric_line line = labelled_value line"
  by (simp add: parse_metric_line_def labelled_value_def metric_labels_def)

lemma unknown_label_ignored:
  "parse_metric_line u = None \<Longrightarrow> parseMetricsSection (pre @ u # post) = parseMetricsSection (pre @ post)"
  by (simp add: parseMetricsSection_def metrics_step_None)


text \<open>
  Claim C8 as the specification states it fails: after the lines of a block of metrics and a
  line that ends it, the array holds one \<^verbatim>\<open>console_output\<close> update for each line and
  none of them carries metrics; the parsed block was only printed.
\<close>

theorem metrics_block_counterexample:
  "updates_or_empty
     (fst (stdout_data text_decoder started_server agentA ''t1''
        (loc_line @ [CHR 0x0A] @ complexity_line @ [CHR 0x0A] @ ''done'' @ [CHR 0x0A]))) agentA
     = [ConsoleOutput loc_line ''t1'' agentA ''/srv/app'' None,
        ConsoleOutput complexity_line ''t1'' agentA ''/srv/app'' None,
        ConsoleOutput ''done'' ''t1'' agentA ''/srv/app'' None]
   \<and> snd (stdout_data text_decoder started_server agentA ''t1''
        (loc_line @ [CHR 0x0A] @ complexity_line @ [CHR 0x0A] @ ''done'' @ [CHR 0x0A]))
     = [ [(F_loc, ParseInt ''12''), (F_complexity, ParseFloat ''3.5'')] ]"
  by code_simp


text \<open>
  Claim C8, amended: for a run of lines that carry the marker, followed by a line that does
  not, all of them plain text without \<^verbatim>\<open>EXTRACTED FEATURES\<close>, the parser appends one
  \<^verbatim>\<open>console_output\<close> update without metrics for each line and no update for the block.
  At the closing line it empties the buffer and parses the run into one object, which it
  prints if it has a field. The object holds, for each field, the value of the last line of
  the run that assigns the field, and nothing for a field that no line assigns. The order
  of the lines does not matter when no field is assigned twice, and a line that assigns
  nothing changes nothing. A line assigns at most one field: of the nine labels, taken in
  the order \<^verbatim>\<open>LOC\<close>, \<^verbatim>\<open>COMPLEXITY\<close>, \<^verbatim>\<open>DEPENDENCIES\<close>, \<^verbatim>\<open>FUNCTIONS\<close>, \<^verbatim>\<open>CLASSES\<close>,
  \<^verbatim>\<open>COMMENTS\<close>, \<^verbatim>\<open>COMPLEXITY PER LOC\<close>, \<^verbatim>\<open>COMMENT RATIO\<close>, \<^verbatim>\<open>FUNCTIONS PER CLASS\<close>,
  the first that the line contains behind the marker and a space, with its colon, decides.
  The field of that label is assigned when the label, white space or none, and digits
  (digits and dots for the four fields that are fractions) follow each other somewhere in
  the line, and the value is the longest run of digits at the first such place; otherwise
  the line assigns nothing, whatever other labels it holds.
\<close>

theorem metrics_run_flushed:
  fixes t :: timestamp
  assumes "listeners s a = Some l" and "bufferLines l = []"
    and "ms \<noteq> []"
    and "\<forall>m\<in>set ms. js_includes m marker \<and> \<not> js_includes m ''EXTRACTED FEATURES'' \<and> parse m = Throws"
    and "\<not> js_includes x marker" and "\<not> js_includes x ''EXTRACTED FEATURES''"
    and "js_trim x \<noteq> []" and "parse x = Throws"
  defines "r \<equiv> stdout_lines parse s a (map (Pair t) (ms @ [x]))"
  shows "updates_or_empty (fst r) a =
           slice_from (- 50)
             (updates_or_empty s a
              @ map (\<lambda>line. ConsoleOutput line t a (deployedLocation l) None) (ms @ [x]))
       \<and> snd r = (case parseMetricsSection ms of None \<Rightarrow> [] | Some block \<Rightarrow> [block])
       \<and> map_option bufferLines (listeners (fst r) a) = Some []
       \<and> (parseMetricsSection ms = None \<longleftrightarrow> (\<forall>m\<in>set ms. parse_metric_line m = None))
       \<and> (\<forall>block f v. parseMetricsSection ms = Some block \<longrightarrow>
             (map_of block f = Some v \<longleftrightarrow>
                (\<exists>i<length ms. parse_metric_line (ms ! i) = Some (f, v)
                   \<and> (\<forall>j. i < j \<and> j < length ms \<longrightarrow>
                         (\<forall>v'. parse_metric_line (ms ! j) \<noteq> Some (f, v'))))))
       \<and> (\<forall>ms'. mset ms' = mset ms
                  \<and> distinct (map fst (List.map_filter parse_metric_line ms)) \<longrightarrow>
             map_option map_of (parseMetricsSection ms')
               = map_option map_of (parseMetricsSection ms))
       \<and> (\<forall>pre u post. ms = pre @ u # post \<and> parse_metric_line u = None \<longrightarrow>
             parseMetricsSection ms = parseMetricsSection (pre @ post))
       \<and> (\<forall>line. parse_metric_line line = labelled_value line)
       \<and> (\<forall>key cls line.
             regex_capture key cls line = None \<longleftrightarrow>
               (\<forall>pre post. line = pre @ key @ post \<longrightarrow>
                  takeWhile cls (skip_spaces white_space post) = []))
       \<and> (\<forall>key cls line g.
             regex_capture key cls line = Some g \<longrightarrow>
               (\<exists>pre post. line = pre @ key @ post
                  \<and> g = takeWhile cls (skip_spaces white_space post) \<and> g \<noteq> []
                  \<and> (\<forall>pre' post'. line = pre' @ key @ post' \<and> length pre' < length pre \<longrightarrow>
                        takeWhile cls (skip_spaces white_space post') = [])))
       \<and> map (\<lambda>text. parse_metric_line (marker @ '' '' @ text))
             [''LOC: 12'', ''COMPLEXITY: 3.5'', ''DEPENDENCIES: 4'', ''FUNCTIONS: 7'',
              ''CLASSES: 2'', ''COMMENTS: 18'', ''COMPLEXITY PER LOC: 0.29'',
              ''COMMENT RATIO: 1.5'', ''FUNCTIONS PER CLASS: 3.5'']
           = [Some (F_loc, ParseInt ''12''), Some (F_complexity, ParseFloat ''3.5''),
              Some (F_dependencies, ParseInt ''4''), Some (F_functions, ParseInt ''7''),
              Some (F_classes, ParseInt ''2''), Some (F_comments, ParseInt ''18''),
              Some (F_complexity_per_loc, ParseFloat ''0.29''),
              Some (F_comment_ratio, ParseFloat ''1.5''),
              Some (F_functions_per_class, ParseFloat ''3.5'')]
       \<and> map parse_metric_line
             [marker @ '' LOC: n/a '' @ marker @ '' COMPLEXITY: 3'',
              marker @ '' COMPLEXITY: 2 '' @ marker @ '' LOC: 5'',
              ''LOC: 3 '' @ marker @ '' LOC: 4'',
              marker @ '' LOC:'' @ [CHR 0xC2, CHR 0xA0, CHR 0xE2, CHR 0x80, CHR 0x89] @ ''7'',
              marker @ '' LOC:8'',
              marker @ '' LOC: 12.5'',
              marker @ '' COMPLEXITY: 1.2.3'',
              marker @ '' FUNCTIONS: many'',
              marker @ '' WIDGETS: 9'',
              marker @ ''LOC: 1'',
              ''LOC: 1'']
           = [None,
              Some (F_loc, ParseInt ''5''),
              Some (F_loc, ParseInt ''3''),
              Some (F_loc, ParseInt ''7''),
              Some (F_loc, ParseInt ''8''),
              Some (F_loc, ParseInt ''12''),
              Some (F_complexity, ParseFloat ''1.2.3''),
              None, None, None, None]"
proof -
  have lr: "lines_result parse a (deployedLocation l) [] (map (Pair t) (ms @ [x])) =
           (map (\<lambda>m. ConsoleOutput m t a (deployedLocation l) None) (ms @ [x]), [],
            (case parseMetricsSection ms of None \<Rightarrow> [] | Some block \<Rightarrow> [block]))"
    using assms(3,4,5,7,8) by (rule lines_result_run_end)
  have r: "r = (set_log s a (updates_or_empty s a
                  @ map (\<lambda>m. ConsoleOutput m t a (deployedLocation l) None) (ms @ [x]))
                 \<lparr>listeners := (listeners s)(a \<mapsto> l\<lparr>processStarted := True, bufferLines := []\<rparr>)\<rparr>,
               (case parseMetricsSection ms of None \<Rightarrow> [] | Some block \<Rightarrow> [block]))"
    unfolding r_def by (simp add: stdout_lines_eq assms(1,2) lr del: map_append)
  have c1: "updates_or_empty (fst r) a =
           slice_from (- 50)
             (updates_or_empty s a
              @ map (\<lambda>line. ConsoleOutput line t a (deployedLocation l) None) (ms @ [x]))"
    by (simp add: r set_log_def updates_or_empty_def)
  have c2: "snd r = (case parseMetricsSection ms of None \<Rightarrow> [] | Some block \<Rightarrow> [block])"
    by (simp add: r)
  have c3: "map_option bufferLines (listeners (fst r) a) = Some []"
    by (simp add: r set_log_def)
  have c4: "parseMetricsSection ms = None \<longleftrightarrow> (\<forall>m\<in>set ms. parse_metric_line m = None)"
    by (rule parseMetricsSection_None)
  have c5: "\<forall>block f v. parseMetricsSection ms = Some block \<longrightarrow>
             (map_of block f = Some v \<longleftrightarrow>
                (\<exists>i<length ms. parse_metric_line (ms ! i) = Some (f, v)
                   \<and> (\<forall>j. i < j \<and> j < length ms \<longrightarrow>
                         (\<forall>v'. parse_metric_line (ms ! j) \<noteq> Some (f, v')))))"
  proof (intro allI impI)
    fix block f v
    assume "parseMetricsSection ms = Some block"
    then have "map_of block = map_of (rev (List.map_filter parse_metric_line ms))"
      by (rule parseMetricsSection_Some)
    then show "map_of block f = Some v \<longleftrightarrow>
                (\<exists>i<length ms. parse_metric_line (ms ! i) = Some (f, v)
                   \<and> (\<forall>j. i < j \<and> j < length ms \<longrightarrow>
                         (\<forall>v'. parse_metric_line (ms ! j) \<noteq> Some (f, v'))))"
      by (simp only: last_assignment)
  qed
  have c6: "\<forall>ms'. mset ms' = mset ms
                  \<and> distinct (map fst (List.map_filter parse_metric_line ms)) \<longrightarrow>
             map_option map_of (parseMetricsSection ms')
               = map_option map_of (parseMetricsSection ms)"
  proof (intro allI impI, elim conjE)
    fix ms'
    assume "mset ms' = mset ms" "distinct (map fst (List.map_filter parse_metric_line ms))"
    then show "map_option map_of (parseMetricsSection ms')
               = map_option map_of (parseMetricsSection ms)"
      by (rule parse_order_independent)
  qed
  have c7: "\<forall>pre u post. ms = pre @ u # post \<and> parse_metric_line u = None \<longrightarrow>
             parseMetricsSection ms = parseMetricsSection (pre @ post)"
  proof (intro allI impI, elim conjE)
    fix pre u post
    assume "ms = pre @ u # post" "parse_metric_line u = None"
    then show "parseMetricsSection ms = parseMetricsSection (pre @ post)"
      by (simp only: unknown_label_ignored)
  qed
  have c8: "\<forall>line. parse_metric_line line = labelled_value line"
    by (simp add: parse_metric_line_labelled)
  have c8a: "\<forall>key cls line.
             regex_capture key cls line = None \<longleftrightarrow>
               (\<forall>pre post. line = pre @ key @ post \<longrightarrow>
                  takeWhile cls (skip_spaces white_space post) = [])"
    by (intro allI) (rule regex_capture_None)
  have c8b: "\<forall>key cls line g.
             regex_capture key cls line = Some g \<longrightarrow>
               (\<exists>pre post. line = pre @ key @ post
                  \<and> g = takeWhile cls (skip_spaces white_space post) \<and> g \<noteq> []
                  \<and> (\<forall>pre' post'. line = pre' @ key @ post' \<and> length pre' < length pre \<longrightarrow>
                        takeWhile cls (skip_spaces white_space post') = []))"
    by (intro allI impI) (rule regex_capture_Some)
  have c9: "map (\<lambda>text. parse_metric_line (marker @ '' '' @ text))
             [''LOC: 12'', ''COMPLEXITY: 3.5'', ''DEPENDENCIES: 4'', ''FUNCTIONS: 7'',
              ''CLASSES: 2'', ''COMMENTS: 18'', ''COMPLEXITY PER LOC: 0.29'',
              ''COMMENT RATIO: 1.5'', ''FUNCTIONS PER CLASS: 3.5'']
           = [Some (F_loc, ParseInt ''12''), Some (F_complexity, ParseFloat ''3.5''),
              Some (F_dependencies, ParseInt ''4''), Some (F_functions, ParseInt ''7''),
              Some (F_classes, ParseInt ''2''), Some (F_comments, ParseInt ''18''),
              Some (F_complexity_per_loc, ParseFloat ''0.29''),
              Some (F_comment_ratio, ParseFloat ''1.5''),
              Some (F_functions_per_class, ParseFloat ''3.5'')]"
    by code_simp
  have c10: "map parse_metric_line
             [marker @ '' LOC: n/a '' @ marker @ '' COMPLEXITY: 3'',
              marker @ '' COMPLEXITY: 2 '' @ marker @ '' LOC: 5'',
              ''LOC: 3 '' @ marker @ '' LOC: 4'',
              marker @ '' LOC:'' @ [CHR 0xC2, CHR 0xA0, CHR 0xE2, CHR 0x80, CHR 0x89] @ ''7'',
              marker @ '' LOC:8'',
              marker @ '' LOC: 12.5'',
              marker @ '' COMPLEXITY: 1.2.3'',
              marker @ '' FUNCTIONS: many'',
              marker @ '' WIDGETS: 9'',
              marker @ ''LOC: 1'',
              ''LOC: 1'']
           = [None,
              Some (F_loc, ParseInt ''5''),
              Some (F_loc, ParseInt ''3''),
              Some (F_loc, ParseInt ''7''),
              Some (F_loc, ParseInt ''8''),
              Some (F_loc, ParseInt ''12''),
              Some (F_complexity, ParseFloat ''1.2.3''),
              None, None, None, None]"
    by code_simp
  show ?thesis
    by (intro conjI)
      (fact c1, fact c2, fact c3, fact c4, fact c5, fact c6, fact c7, fact c8, fact c8a, fact c8b,
       fact c9, fact c10)
qed

theorem metrics_run_flushed_witness:
  "snd (stdout_lines text_decoder started_server agentA
            (map (Pair ''t1'') (metrics_run @ [''done''])))
     = [ [(F_loc, ParseInt ''12''), (F_complexity, ParseFloat ''3.5'')] ]
   \<and> map_option bufferLines
        (listeners
           (fst (stdout_lines text_decoder started_server agentA
            (map (Pair ''t1'') (metrics_run @ [''done'']))))
           agentA)
     = Some []
   \<and> (\<exists>i<length metrics_run.
         parse_metric_line (metrics_run ! i) = Some (F_loc, ParseInt ''12'')
         \<and> (\<forall>j. i < j \<and> j < length metrics_run \<longrightarrow>
               (\<forall>v'. parse_metric_line (metrics_run ! j) \<noteq> Some (F_loc, v'))))
   \<and> map_option map_of (parseMetricsSection (rev metrics_run))
       = map_option map_of (parseMetricsSection metrics_run)
   \<and> parseMetricsSection metrics_run
       = parseMetricsSection ([loc_line, complexity_line] @ [functions_line])
   \<and> labelled_value loc_line = Some (F_loc, ParseInt ''12'')
   \<and> (\<exists>pre post. loc_line = pre @ ''LOC:'' @ post
          \<and> ''12'' = takeWhile is_digit (skip_spaces white_space post))"
proof -
  have h1: "listeners started_server agentA
              = Some \<lparr>processStarted = False, bufferLines = [], deployedLocation = ''/srv/app''\<rparr>"
    by (simp add: started_server_def)
  have h2: "bufferLines \<lparr>processStarted = False, bufferLines = [], deployedLocation = ''/srv/app''\<rparr> = []"
    by simp
  have h3: "metrics_run \<noteq> []" by (simp add: metrics_run_def)
  have h4: "\<forall>m\<in>set metrics_run. js_includes m marker \<and> \<not> js_includes m ''EXTRACTED FEATURES''
              \<and> text_decoder m = Throws"
    by code_simp
  have h5: "\<not> js_includes ''done'' marker" by code_simp
  have h6: "\<not> js_includes ''done'' ''EXTRACTED FEATURES''" by code_simp
  have h7: "js_trim ''done'' \<noteq> []" by code_simp
  have h8: "text_decoder ''done'' = Throws" by (simp add: text_decoder_def)
  have p: "parseMetricsSection metrics_run
             = Some [(F_loc, ParseInt ''12''), (F_complexity, ParseFloat ''3.5'')]"
    by code_simp
  note t = metrics_run_flushed [OF h1 h2 h3 h4 h5 h6 h7 h8, where t = "''t1''"]
  from t [THEN conjunct2, THEN conjunct1]
  have printed: "snd (stdout_lines text_decoder started_server agentA
            (map (Pair ''t1'') (metrics_run @ [''done''])))
     = [ [(F_loc, ParseInt ''12''), (F_complexity, ParseFloat ''3.5'')] ]"
    by (simp add: p)
  note cleared = t [THEN conjunct2, THEN conjunct2, THEN conjunct1]
  have "map_of [(F_loc, ParseInt ''12''), (F_complexity, ParseFloat ''3.5'')] F_loc
          = Some (ParseInt ''12'')"
    by simp
  with t [THEN conjunct2, THEN conjunct2, THEN conjunct2, THEN conjunct2, THEN conjunct1,
          rule_format, OF p, of F_loc "ParseInt ''12''"]
  have last: "\<exists>i<length metrics_run.
         parse_metric_line (metrics_run ! i) = Some (F_loc, ParseInt ''12'')
         \<and> (\<forall>j. i < j \<and> j < length metrics_run \<longrightarrow>
               (\<forall>v'. parse_metric_line (metrics_run ! j) \<noteq> Some (F_loc, v')))"
    by (rule iffD1)
  have perm: "mset (rev metrics_run) = mset metrics_run" by simp
  have once: "distinct (map fst (List.map_filter parse_metric_line metrics_run))" by code_simp
  from perm once have "mset (rev metrics_run) = mset metrics_run
      \<and> distinct (map fst (List.map_filter parse_metric_line metrics_run))"
    by (rule conjI)
  then have order: "map_option map_of (parseMetricsSection (rev metrics_run))
       = map_option map_of (parseMetricsSection metrics_run)"
    by (rule t [THEN conjunct2, THEN conjunct2, THEN conjunct2, THEN conjunct2, THEN conjunct2,
          THEN conjunct1, rule_format])
  have split: "metrics_run = [loc_line, complexity_line] @ widgets_line # [functions_line]"
    by (simp add: metrics_run_def)
  have unknown: "parse_metric_line widgets_line = None" by code_simp
  from split unknown
  have "metrics_run = [loc_line, complexity_line] @ widgets_line # [functions_line]
      \<and> parse_metric_line widgets_line = None"
    by (rule conjI)
  then have ignored: "parseMetricsSection metrics_run
       = parseMetricsSection ([loc_line, complexity_line] @ [functions_line])"
    by (rule t [THEN conjunct2, THEN conjunct2, THEN conjunct2, THEN conjunct2, THEN conjunct2,
          THEN conjunct2, THEN conjunct1, rule_format])
  have "parse_metric_line loc_line = Some (F_loc, ParseInt ''12'')" by code_simp
  with t [THEN conjunct2, THEN conjunct2, THEN conjunct2, THEN conjunct2, THEN conjunct2,
          THEN conjunct2, THEN conjunct2, THEN conjunct1, rule_format, of loc_line]
  have labelled: "labelled_value loc_line = Some (F_loc, ParseInt ''12'')"
    by simp
  have "regex_capture ''LOC:'' is_digit loc_line = Some ''12''" by code_simp
  from t [THEN conjunct2, THEN conjunct2, THEN conjunct2, THEN conjunct2, THEN conjunct2,
          THEN conjunct2, THEN conjunct2, THEN conjunct2, THEN conjunct2, THEN conjunct1,
          rule_format, OF this]
  have captured: "\<exists>pre post. loc_line = pre @ ''LOC:'' @ post
          \<and> ''12'' = takeWhile is_digit (skip_spaces white_space post)"
    by blast
  from printed cleared last order ignored labelled captured show ?thesis by (intro conjI)
qed


subsection \<open>Starting\<close>

lemma spawn_reply_same:
  "fst (spawn_monitor (env\<lparr>spawn_outcome := Spawn_error_event msg errno\<rparr>) fs s folder project)
     = fst (spawn_monitor (env\<lparr>spawn_outcome := Spawn_ok\<rparr>) fs s folder project)"
  by (simp add: spawn_monitor_def Let_def pythonExecutable_def sourceDir_def)

lemma possiblePaths_spawn_irrelevant:
  "possiblePaths (env\<lparr>spawn_outcome := x\<rparr>) folder = possiblePaths env folder"
  by (cases "media_entries env") (simp_all add: possiblePaths_def user_or_def Let_def)

lemma resolve_folder_spawn_irrelevant:
  "resolve_folder (env\<lparr>spawn_outcome := x\<rparr>) fs folder = resolve_folder env fs folder"
  unfolding resolve_folder_def possiblePaths_spawn_irrelevant
  by (simp add: Let_def split: option.splits sum.splits)

lemma check_writable_spawn_irrelevant:
  "check_writable (env\<lparr>spawn_outcome := x\<rparr>) fs p = check_writable env fs p"
  by (simp add: check_writable_def Let_def split: sum.splits bool.splits)

lemma deploy_files_spawn_irrelevant:
  "deploy_files (env\<lparr>spawn_outcome := x\<rparr>) fs p project = deploy_files env fs p project"
  by (simp add: deploy_files_def sourceDir_def split: sum.splits)

lemma start_reply_same:
  "fst (start_realtime_monitor (env\<lparr>spawn_outcome := Spawn_error_event msg errno\<rparr>) fs s folder project)
     = fst (start_realtime_monitor (env\<lparr>spawn_outcome := Spawn_ok\<rparr>) fs s folder project)"
  using spawn_reply_same [where env = env and msg = msg and errno = errno]
  by (auto simp: start_realtime_monitor_def resolve_folder_spawn_irrelevant
      check_writable_spawn_irrelevant deploy_files_spawn_irrelevant
      split: prod.splits sum.splits) (metis fst_conv)

lemma resolve_folder_reply:
  "resolve_folder env fs folder = (Inl reply, fs1) \<Longrightarrow> \<exists>e. reply = Start_500_location folder e"
  by (auto simp: resolve_folder_def Let_def split: if_splits option.splits sum.splits prod.splits)

lemma check_writable_reply:
  "check_writable env fs p = (Inl reply, fs1) \<Longrightarrow>
     reply = Start_400_not_accessible p \<or> reply = Start_400_not_a_directory p"
  by (auto simp: check_writable_def Let_def split: sum.splits bool.splits)

lemma deploy_files_reply:
  "deploy_files env fs p project = (Inl reply, fs1) \<Longrightarrow> \<exists>e. reply = Start_500_deploy_failed e"
  by (auto simp: deploy_files_def split: sum.splits)

lemma start_decompose:
  assumes "start_realtime_monitor env fs s folder project = (reply, fs', s')"
  shows "(s' = s \<and> (\<forall>a p q. reply \<noteq> Start_200 a p q))
       \<or> (\<exists>fs0 p. spawn_monitor env fs0 s p project = (reply, s'))"
proof (cases "resolve_folder env fs folder")
  case (Pair r1 fs1)
  show ?thesis
  proof (cases r1)
    case (Inl rep)
    with Pair assms resolve_folder_reply [of env fs folder rep fs1] show ?thesis
      by (auto simp: start_realtime_monitor_def)
  next
    case (Inr p)
    note r1 = this
    show ?thesis
    proof (cases "check_writable env fs1 p")
      case (Pair r2 fs2)
      note cw = this
      show ?thesis
      proof (cases r2)
        case (Inl rep)
        with \<open>resolve_folder env fs folder = (r1, fs1)\<close> r1 cw assms
          check_writable_reply [of env fs1 p rep fs2] show ?thesis
          by (auto simp: start_realtime_monitor_def)
      next
        case (Inr u)
        note r2 = this
        show ?thesis
        proof (cases "deploy_files env fs2 p project")
          case (Pair r3 fs3)
          note df = this
          show ?thesis
          proof (cases r3)
            case (Inl rep)
            with \<open>resolve_folder env fs folder = (r1, fs1)\<close> r1 cw r2 df assms
              deploy_files_reply [of env fs2 p project rep fs3] show ?thesis
              by (auto simp: start_realtime_monitor_def)
          next
            case (Inr u')
            with \<open>resolve_folder env fs folder = (r1, fs1)\<close> r1 cw r2 df assms
            have "spawn_monitor env fs3 s p project = (reply, s')"
              by (auto simp: start_realtime_monitor_def split: prod.splits)
            then show ?thesis by blast
          qed
        qed
      qed
    qed
  qed
qed

lemma spawn_monitor_200:
  "spawn_monitor env fs0 s p project = (Start_200 a p' q, s') \<Longrightarrow> p' = p \<and> q = project"
  by (auto simp: spawn_monitor_def Let_def split: spawn_result.splits)

lemma start_200_spawned:
  assumes "start_realtime_monitor env fs s folder project = (Start_200 a p q, fs', s')"
  shows "\<exists>fs0. spawn_monitor env fs0 s p q = (Start_200 a p q, s')"
proof -
  from start_decompose [OF assms] obtain fs0 p0
    where sp: "spawn_monitor env fs0 s p0 project = (Start_200 a p q, s')" by blast
  from spawn_monitor_200 [OF sp] have "p = p0" "q = project" by simp_all
  with sp show ?thesis by blast
qed

lemma spawn_monitor_error_event:
  assumes "spawn_outcome env = Spawn_error_event msg errno"
      and "spawn_monitor env fs0 s p q = (reply, s')"
  shows "reply = Start_200 (new_agent_id env) p q
       \<and> monitorUpdates s' (new_agent_id env) = Some []
       \<and> listeners s' (new_agent_id env) \<noteq> None
       \<and> sentUpdateIndices s' = sentUpdateIndices s"
  using assms by (auto simp: spawn_monitor_def Let_def)

lemma spawn_monitor_throws:
  assumes "spawn_outcome env = Spawn_throws m"
  shows "spawn_monitor env fs0 s p q = (Start_500_failed m, s)"
  using assms by (simp add: spawn_monitor_def)

text \<open>
  Claim C6 as the specification states it fails: when the interpreter cannot be launched,
  the start route answers with status 200 and the agent id, the update array of the agent
  exists, and the failure is in the updates that the next poll returns.
\<close>

theorem launch_failure_counterexample:
  "fst (start_realtime_monitor failing_env sample_fs empty_server ''myproject'' ''demo'')
     = Start_200 agentA ''/tmp/riskguard_test/myproject'' ''demo''
   \<and> monitorUpdates
        (snd (snd (start_realtime_monitor failing_env sample_fs empty_server ''myproject'' ''demo'')))
        agentA = Some []
   \<and> fst (monitor_updates
        (failed_launch
           (snd (snd (start_realtime_monitor failing_env sample_fs empty_server ''myproject'' ''demo'')))
           agentA ''t1'' ''t2'' ''spawn python3 ENOENT'' (- 2))
        agentA)
     = Poll_200 [ErrorUpdate ''Failed to start monitoring: spawn python3 ENOENT'' ''t1'' agentA,
                 MonitorStopped (Some (- 2)) ''t2'' agentA]"
  by code_simp

text \<open>
  Claim C6, amended: a launch failure that the runtime reports through the \<^verbatim>\<open>error\<close>
  event is not an error of the start request. The reply is the one of a successful launch.
  When it is the reply of line 393, the update array of the new agent exists. The runtime
  calls the \<^verbatim>\<open>error\<close> listener, which removes the agent from \<^verbatim>\<open>activeMonitors\<close> and
  appends the update \<^verbatim>\<open>Failed to start monitoring: ...\<close>, and then the \<^verbatim>\<open>close\<close> listener,
  which appends the update \<^verbatim>\<open>monitor_stopped\<close> with the error number as exit code; the
  first poll of the agent returns these two updates. Only when \<^verbatim>\<open>spawn\<close> itself throws is
  the request answered with an error, and then the module state is unchanged.
\<close>

theorem launch_failure_is_an_update:
  "fst (start_realtime_monitor (env\<lparr>spawn_outcome := Spawn_error_event msg errno\<rparr>) fs s folder project)
     = fst (start_realtime_monitor (env\<lparr>spawn_outcome := Spawn_ok\<rparr>) fs s folder project)
   \<and> (spawn_outcome env = Spawn_error_event msg errno
        \<and> start_realtime_monitor env fs s folder project = (Start_200 a p q, fs', s') \<longrightarrow>
          a = new_agent_id env
          \<and> monitorUpdates s' a = Some []
          \<and> updates_or_empty (failed_launch s' a t t' msg errno) a
              = [ErrorUpdate (''Failed to start monitoring: '' @ msg) t a,
                 MonitorStopped (Some errno) t' a]
          \<and> a \<notin> fst ` set (activeMonitors (failed_launch s' a t t' msg errno))
          \<and> (sentUpdateIndices s a = None \<longrightarrow>
                fst (monitor_updates (failed_launch s' a t t' msg errno) a)
                  = Poll_200 [ErrorUpdate (''Failed to start monitoring: '' @ msg) t a,
                              MonitorStopped (Some errno) t' a]))
   \<and> (spawn_outcome env = Spawn_throws m \<longrightarrow>
        snd (snd (start_realtime_monitor env fs s folder project)) = s
        \<and> (\<forall>a p q. fst (start_realtime_monitor env fs s folder project) \<noteq> Start_200 a p q))"
proof -
  have c1: "fst (start_realtime_monitor (env\<lparr>spawn_outcome := Spawn_error_event msg errno\<rparr>) fs s folder project)
     = fst (start_realtime_monitor (env\<lparr>spawn_outcome := Spawn_ok\<rparr>) fs s folder project)"
    by (rule start_reply_same)
  have c2: "spawn_outcome env = Spawn_error_event msg errno
        \<and> start_realtime_monitor env fs s folder project = (Start_200 a p q, fs', s') \<longrightarrow>
          a = new_agent_id env
          \<and> monitorUpdates s' a = Some []
          \<and> updates_or_empty (failed_launch s' a t t' msg errno) a
              = [ErrorUpdate (''Failed to start monitoring: '' @ msg) t a,
                 MonitorStopped (Some errno) t' a]
          \<and> a \<notin> fst ` set (activeMonitors (failed_launch s' a t t' msg errno))
          \<and> (sentUpdateIndices s a = None \<longrightarrow>
                fst (monitor_updates (failed_launch s' a t t' msg errno) a)
                  = Poll_200 [ErrorUpdate (''Failed to start monitoring: '' @ msg) t a,
                              MonitorStopped (Some errno) t' a])"
  proof (intro impI, elim conjE)
    assume o: "spawn_outcome env = Spawn_error_event msg errno"
      and st: "start_realtime_monitor env fs s folder project = (Start_200 a p q, fs', s')"
    from st obtain fs0 where sp: "spawn_monitor env fs0 s p q = (Start_200 a p q, s')"
      using start_200_spawned by blast
    from spawn_monitor_error_event [OF o sp]
    have a: "a = new_agent_id env" and mu: "monitorUpdates s' a = Some []"
      and li: "listeners s' a \<noteq> None" and se: "sentUpdateIndices s' = sentUpdateIndices s"
      by simp_all
    from li obtain l where l: "listeners s' a = Some l" by blast
    define s1 where "s1 = process_error s' a t msg"
    have pe: "s1 = push_update (s'\<lparr>activeMonitors := remove_key a (activeMonitors s')\<rparr>) a
                  (ErrorUpdate (''Failed to start monitoring: '' @ msg) t a)"
      by (simp add: s1_def process_error_def l)
    have l1: "listeners s1 a = Some l"
      by (simp add: pe push_update_def l)
    have log1: "updates_or_empty s1 a = [ErrorUpdate (''Failed to start monitoring: '' @ msg) t a]"
      by (simp add: pe push_update_def updates_or_empty_def mu slice_from_last)
    have fl: "failed_launch s' a t t' msg errno =
                push_update
                  (s1\<lparr>activeMonitors := remove_key a (activeMonitors s1),
                      processes := (processes s1)
                        (a := map_option (\<lambda>p. p\<lparr>exited := True\<rparr>) (processes s1 a))\<rparr>)
                  a (MonitorStopped (Some errno) t' a)"
      by (simp add: failed_launch_def process_close_def l1 flip: s1_def)
    have log: "updates_or_empty (failed_launch s' a t t' msg errno) a
              = [ErrorUpdate (''Failed to start monitoring: '' @ msg) t a,
                 MonitorStopped (Some errno) t' a]"
      using log1 by (simp add: fl push_update_def updates_or_empty_def slice_from_last)
    have gone: "a \<notin> fst ` set (activeMonitors (failed_launch s' a t t' msg errno))"
      by (simp add: fl push_update_def keys_remove_key)
    have poll: "fst (monitor_updates (failed_launch s' a t t' msg errno) a)
                  = Poll_200 [ErrorUpdate (''Failed to start monitoring: '' @ msg) t a,
                              MonitorStopped (Some errno) t' a]"
      if "sentUpdateIndices s a = None"
    proof -
      from that se have "lastSentIndex (failed_launch s' a t t' msg errno) a = - 1"
        by (simp add: lastSentIndex_def fl pe push_update_def)
      then show ?thesis
        by (simp add: fst_monitor_updates log slice_from_nonneg log_throws_def)
    qed
    from a mu log gone poll
    show "a = new_agent_id env
          \<and> monitorUpdates s' a = Some []
          \<and> updates_or_empty (failed_launch s' a t t' msg errno) a
              = [ErrorUpdate (''Failed to start monitoring: '' @ msg) t a,
                 MonitorStopped (Some errno) t' a]
          \<and> a \<notin> fst ` set (activeMonitors (failed_launch s' a t t' msg errno))
          \<and> (sentUpdateIndices s a = None \<longrightarrow>
                fst (monitor_updates (failed_launch s' a t t' msg errno) a)
                  = Poll_200 [ErrorUpdate (''Failed to start monitoring: '' @ msg) t a,
                              MonitorStopped (Some errno) t' a])"
      by (intro conjI impI)
  qed
  have c3: "spawn_outcome env = Spawn_throws m \<longrightarrow>
        snd (snd (start_realtime_monitor env fs s folder project)) = s
        \<and> (\<forall>a p q. fst (start_realtime_monitor env fs s folder project) \<noteq> Start_200 a p q)"
  proof
    assume o: "spawn_outcome env = Spawn_throws m"
    obtain reply fs' s' where st: "start_realtime_monitor env fs s folder project = (reply, fs', s')"
      by (metis prod_cases3)
    from start_decompose [OF st] o
    have "s' = s \<and> (\<forall>a p q. reply \<noteq> Start_200 a p q)"
      by (auto simp: spawn_monitor_throws)
    with st have u: "snd (snd (start_realtime_monitor env fs s folder project)) = s"
      and e: "\<forall>a p q. fst (start_realtime_monitor env fs s folder project) \<noteq> Start_200 a p q"
      by simp_all
    from u e show "snd (snd (start_realtime_monitor env fs s folder project)) = s
        \<and> (\<forall>a p q. fst (start_realtime_monitor env fs s folder project) \<noteq> Start_200 a p q)"
      by (rule conjI)
  qed
  show ?thesis by (intro conjI) (fact c1, fact c2, fact c3)
qed


theorem launch_failure_is_an_update_witness:
  "updates_or_empty
     (failed_launch
        (snd (snd (start_realtime_monitor failing_env sample_fs empty_server ''myproject'' ''demo'')))
        agentA ''t1'' ''t2'' ''spawn python3 ENOENT'' (- 2))
     agentA
     = [ErrorUpdate ''Failed to start monitoring: spawn python3 ENOENT'' ''t1'' agentA,
        MonitorStopped (Some (- 2)) ''t2'' agentA]
   \<and> fst (monitor_updates
        (failed_launch
           (snd (snd (start_realtime_monitor failing_env sample_fs empty_server ''myproject'' ''demo'')))
           agentA ''t1'' ''t2'' ''spawn python3 ENOENT'' (- 2))
        agentA)
     = Poll_200 [ErrorUpdate ''Failed to start monitoring: spawn python3 ENOENT'' ''t1'' agentA,
                 MonitorStopped (Some (- 2)) ''t2'' agentA]
   \<and> snd (snd (start_realtime_monitor throwing_env sample_fs empty_server ''myproject'' ''demo''))
       = empty_server"
proof -
  let ?r = "start_realtime_monitor failing_env sample_fs empty_server ''myproject'' ''demo''"
  have o: "spawn_outcome failing_env = Spawn_error_event ''spawn python3 ENOENT'' (- 2)"
    by (simp add: failing_env_def)
  have "fst ?r = Start_200 agentA ''/tmp/riskguard_test/myproject'' ''demo''"
    by code_simp
  then have st: "?r = (Start_200 agentA ''/tmp/riskguard_test/myproject'' ''demo'',
                       fst (snd ?r), snd (snd ?r))"
    by (metis prod.collapse)
  from o st have hyp: "spawn_outcome failing_env = Spawn_error_event ''spawn python3 ENOENT'' (- 2)
      \<and> ?r = (Start_200 agentA ''/tmp/riskguard_test/myproject'' ''demo'',
               fst (snd ?r), snd (snd ?r))"
    by (rule conjI)
  note imp = launch_failure_is_an_update
         [where env = failing_env and msg = "''spawn python3 ENOENT''" and errno = "- 2"
            and fs = sample_fs
            and s = empty_server and folder = "''myproject''" and project = "''demo''"
            and a = agentA and t = "''t1''" and t' = "''t2''"
            and p = "''/tmp/riskguard_test/myproject''"
            and q = "''demo''" and fs' = "fst (snd ?r)" and s' = "snd (snd ?r)",
          THEN conjunct2, THEN conjunct1]
  from imp hyp have one: "updates_or_empty
       (failed_launch (snd (snd ?r)) agentA ''t1'' ''t2'' ''spawn python3 ENOENT'' (- 2)) agentA
     = [ErrorUpdate ''Failed to start monitoring: spawn python3 ENOENT'' ''t1'' agentA,
        MonitorStopped (Some (- 2)) ''t2'' agentA]"
    by simp
  have fresh: "sentUpdateIndices empty_server agentA = None"
    by (simp add: empty_server_def)
  from imp hyp fresh
  have polled: "fst (monitor_updates
        (failed_launch (snd (snd ?r)) agentA ''t1'' ''t2'' ''spawn python3 ENOENT'' (- 2)) agentA)
     = Poll_200 [ErrorUpdate ''Failed to start monitoring: spawn python3 ENOENT'' ''t1'' agentA,
                 MonitorStopped (Some (- 2)) ''t2'' agentA]"
    by simp
  have o': "spawn_outcome throwing_env = Spawn_throws ''The argument file must be of type string''"
    by (simp add: throwing_env_def)
  note imp' = launch_failure_is_an_update
         [where env = throwing_env and fs = sample_fs and s = empty_server
            and folder = "''myproject''" and project = "''demo''"
            and m = "''The argument file must be of type string''",
          THEN conjunct2, THEN conjunct2]
  from imp' o'
  have two: "snd (snd (start_realtime_monitor throwing_env sample_fs empty_server ''myproject'' ''demo''))
       = empty_server"
    by simp
  from one polled two show ?thesis by (intro conjI)
qed














text \<open>
  The fallback directory is the joined path, which \<^verbatim>\<open>path.join\<close> normalises: a relative
  folder that climbs with \<^verbatim>\<open>..\<close> gives a directory outside \<^verbatim>\<open>/tmp/riskguard_test\<close>.
\<close>

lemma fallback_outside_tmp:
  "\<not> isAbsolute ''../../srv/data''
   \<and> path_join sample_env [''/tmp'', ''riskguard_test'', ''../../srv/data''] = ''/srv/data''"
  by code_simp





text \<open>
  A directory is found under a name that ends with a slash, and no fallback directory is
  made then. A fallback directory that an earlier request has left is used again, and its
  file \<^verbatim>\<open>test.py\<close> is written anew.
\<close>

lemma found_with_slash:
  "fst (start_realtime_monitor sample_env
          (sample_fs\<lparr>directories := insert [''opt'', ''riskguard'', ''myproject''] (directories sample_fs)\<rparr>)
          empty_server ''myproject/'' ''demo'')
     = Start_200 agentA ''/opt/riskguard/myproject/'' ''demo''"
  by code_simp

text \<open>The candidate places of a relative folder, with one drive under the media directory,
  for a user that is known and for one that is not.\<close>

lemma candidate_places:
  "possiblePaths (sample_env\<lparr>media_entries := Some [''usb'']\<rparr>) ''myproject''
     = [''/opt/riskguard/myproject'', ''/opt/riskguard/backend/myproject'',
        ''/home/dev/myproject'', ''/home/dev/Desktop/myproject'',
        ''/home/dev/Documents/myproject'', ''myproject'', ''/media/dev/usb/myproject'']
   \<and> possiblePaths (sample_env\<lparr>env_USER := None, media_entries := Some [''usb'']\<rparr>) ''a/../b/''
     = [''/opt/riskguard/b/'', ''/opt/riskguard/backend/b/'',
        ''/home/user/b/'', ''/home/user/Desktop/b/'',
        ''/home/user/Documents/b/'', ''a/../b/'', ''/media/sekar/usb/b/'']"
  by code_simp

text \<open>The operations of the file system on \<open>sample_fs\<close>, in the working directory of
  \<open>sample_env\<close>.\<close>

lemma file_system_samples:
  "map (stat_isDirectory ''/opt/riskguard/backend'' sample_fs)
     [''/opt/riskguard/monitoring-agent/'', ''../monitoring-agent'', ''routes/.'', ''/'',
      ''/opt/riskguard/monitoring-agent/portable_monitor.py'',
      ''/opt/riskguard/monitoring-agent/portable_monitor.py/'',
      ''/opt/riskguard/myproject'', ''myproject'']
     = [Inr True, Inr True, Inr True, Inr True, Inr False, Inl ENOTDIR, Inl ENOENT, Inl ENOENT]"
  "map (\<lambda>p. map_sum fst (\<lambda>fs. directories fs - directories sample_fs)
               (mkdir_recursive ''/opt/riskguard/backend'' sample_fs p))
     [''/tmp/riskguard_test/a/b'', ''/tmp'', ''new/'',
      ''/opt/riskguard/monitoring-agent/portable_monitor.py'',
      ''/opt/riskguard/monitoring-agent/portable_monitor.py/sub'']
     = [Inr {[''tmp'', ''riskguard_test''], [''tmp'', ''riskguard_test'', ''a''],
             [''tmp'', ''riskguard_test'', ''a'', ''b'']},
        Inr {}, Inr {[''opt'', ''riskguard'', ''backend'', ''new'']},
        Inl EEXIST, Inl ENOTDIR]"
  "map (\<lambda>p. map_sum (\<lambda>e. e) (\<lambda>fs. files fs (resolve_path ''/opt/riskguard/backend'' p))
               (writeFile ''/opt/riskguard/backend'' sample_fs p (Text ''x'')))
     [''/tmp/note'', ''note'', ''/tmp'', ''/tmp/missing/note'',
      ''/opt/riskguard/monitoring-agent/portable_monitor.py/note'',
      ''/opt/riskguard/monitoring-agent/portable_monitor.py'']
     = [Inr (Some (Text ''x'')), Inr (Some (Text ''x'')), Inl EISDIR, Inl ENOENT, Inl ENOTDIR,
        Inr (Some (Text ''x''))]"
  "map (\<lambda>p. map_sum (\<lambda>e. e) (\<lambda>fs. files fs (resolve_path ''/opt/riskguard/backend'' p))
               (unlink ''/opt/riskguard/backend'' sample_fs p))
     [''/opt/riskguard/monitoring-agent/portable_monitor.py'', ''/tmp/note'', ''/tmp'']
     = [Inr None, Inl ENOENT, Inl EISDIR]"
  "map_sum (\<lambda>e. e) (\<lambda>fs. files fs [''tmp'', ''copy''])
     (copyFile ''/opt/riskguard/backend'' sample_fs
        ''../monitoring-agent/portable_monitor.py'' ''/tmp/copy'')
     = Inr (Some (Text ''# watcher''))"
  "map_sum (\<lambda>e. e) (\<lambda>fs. ())
     (copyFile ''/opt/riskguard/backend'' sample_fs ''/tmp/none'' ''/tmp/copy'') = Inl ENOENT"
  "map_sum (\<lambda>e. e) (\<lambda>fs. ())
     (writeFile ''/'' no_test_file_fs ''/tmp/riskguard_test/myproject/test.py'' (Text ''x''))
     = Inl ENOENT"
  "map_sum (\<lambda>e. e) (\<lambda>fs. ())
     (writeFile ''/'' (projr (mkdir_recursive ''/'' no_test_file_fs ''/tmp/riskguard_test/myproject''))
        ''/tmp/riskguard_test/myproject/test.py'' (Text ''x''))
     = Inl EACCES"
  by code_simp+

text \<open>The replies of the start route for an absolute folder that is a file, for one that
  does not exist, and when the script of the watcher is missing.\<close>

lemma start_failures:
  "fst (start_realtime_monitor sample_env sample_fs empty_server
          ''/opt/riskguard/monitoring-agent/portable_monitor.py'' ''demo'')
     = Start_400_not_a_directory ''/opt/riskguard/monitoring-agent/portable_monitor.py''"
  "fst (start_realtime_monitor sample_env sample_fs empty_server ''/srv/none'' ''demo'')
     = Start_400_not_accessible ''/srv/none''"
  "fst (start_realtime_monitor sample_env (sample_fs\<lparr>unwritable := {[''tmp'', ''.riskguard_test'']}\<rparr>)
          empty_server ''/tmp'' ''demo'')
     = Start_400_not_accessible ''/tmp''"
  "fst (start_realtime_monitor sample_env (sample_fs\<lparr>files := Map.empty\<rparr>)
          empty_server ''/tmp'' ''demo'')
     = Start_500_deploy_failed ENOENT"
  "fst (start_realtime_monitor throwing_env sample_fs empty_server ''/tmp'' ''demo'')
     = Start_500_failed ''The argument file must be of type string''"
  by code_simp+

text \<open>What the start route stores for the agent and the process it spawns, without and with
  the interpreter of the virtual environment.\<close>

lemma started_agent:
  "map_of (activeMonitors
             (snd (snd (start_realtime_monitor sample_env sample_fs empty_server ''myproject'' ''demo''))))
          agentA
     = Some \<lparr>folderPath = ''/tmp/riskguard_test/myproject'', projectName = ''demo'',
              deployedFiles = [''/tmp/riskguard_test/myproject/portable_monitor.py'',
                               ''/tmp/riskguard_test/myproject/monitor_config.json'',
                               ''/tmp/riskguard_test/myproject/requirements.txt''],
              startTime = ''t0''\<rparr>"
  "processes
     (snd (snd (start_realtime_monitor sample_env sample_fs empty_server ''myproject'' ''demo'')))
     agentA
     = Some \<lparr>command = ''python3'',
              arguments = [''/tmp/riskguard_test/myproject/portable_monitor.py'', ''--watch-dir'',
                           ''/tmp/riskguard_test/myproject'', ''--config'',
                           ''/tmp/riskguard_test/myproject/monitor_config.json'',
                           ''--project-id'', ''demo''],
              killed = False, exited = False, signals = []\<rparr>"
  "map_option command
     (processes
        (snd (snd (start_realtime_monitor sample_env
           (sample_fs\<lparr>files := (files sample_fs)
               ([''opt'', ''riskguard'', ''monitoring-agent'', ''venv'', ''bin'', ''python3'']
                  \<mapsto> Text ''#''),
              directories := directories sample_fs
                \<union> {[''opt'', ''riskguard'', ''monitoring-agent'', ''venv''],
                    [''opt'', ''riskguard'', ''monitoring-agent'', ''venv'', ''bin'']}\<rparr>)
           empty_server ''myproject'' ''demo'')))
        agentA)
     = Some ''/opt/riskguard/monitoring-agent/venv/bin/python3''"
  "map_option exited
     (processes
        (snd (snd (start_realtime_monitor failing_env sample_fs empty_server ''myproject'' ''demo'')))
        agentA)
     = Some True"
  by code_simp+

lemma fallback_used_again:
  "fst (start_realtime_monitor sample_env used_before_fs empty_server ''myproject'' ''demo'')
     = Start_200 agentA ''/tmp/riskguard_test/myproject'' ''demo''
   \<and> files used_before_fs [''tmp'', ''riskguard_test'', ''myproject'', ''test.py'']
       = Some (Text ''# edited'')
   \<and> files (fst (snd (start_realtime_monitor sample_env used_before_fs empty_server
                         ''myproject'' ''demo'')))
        [''tmp'', ''riskguard_test'', ''myproject'', ''test.py'']
       = Some (Text test_file_text)"
  by code_simp


subsection \<open>Stopping\<close>

lemma js_includes_iff: "js_includes s pat \<longleftrightarrow> (\<exists>pre post. s = pre @ pat @ post)"
proof (induction s)
  case Nil
  then show ?case by (auto simp: starts_with_iff)
next
  case (Cons c s)
  show ?case
  proof
    assume "js_includes (c # s) pat"
    then consider "starts_with (c # s) pat" | "js_includes s pat" by auto
    then show "\<exists>pre post. c # s = pre @ pat @ post"
    proof cases
      case 1
      then obtain post where "c # s = [] @ pat @ post" by (auto simp: starts_with_iff)
      then show ?thesis by blast
    next
      case 2
      with Cons.IH obtain pre post where "s = pre @ pat @ post" by blast
      then have "c # s = (c # pre) @ pat @ post" by simp
      then show ?thesis by blast
    qed
  next
    assume "\<exists>pre post. c # s = pre @ pat @ post"
    then obtain pre post where e: "c # s = pre @ pat @ post" by blast
    show "js_includes (c # s) pat"
    proof (cases pre)
      case Nil
      with e have "starts_with (c # s) pat" by (auto simp: starts_with_iff)
      then show ?thesis by simp
    next
      case (Cons d pre')
      with e have "s = pre' @ pat @ post" by simp
      with Cons.IH have "js_includes s pat" by blast
      then show ?thesis by simp
    qed
  qed
qed




lemma map_of_remove_key: "map_of (remove_key k kvs) k = None"
  by (induction kvs) (auto simp: remove_key_def)






text \<open>The stop route never touches \<^verbatim>\<open>sentUpdateIndices\<close>.\<close>

lemma stop_keeps_watermarks:
  "sentUpdateIndices (snd (stop_monitoring s sessionId agentId)) = sentUpdateIndices s"
  by (auto simp: stop_monitoring_def Let_def split: option.splits)

text \<open>
  After a SIGTERM was sent, \<^verbatim>\<open>killed\<close> is true, so the timer never sends SIGKILL to a
  process that is still there.
\<close>

lemma no_escalation:
  assumes "fst (stop_monitoring s sessionId agentId) = Stop_200 a"
      and "processes s a = Some p" and "\<not> killed p" and "\<not> exited p"
  shows "processes (force_kill_timer (snd (stop_monitoring s sessionId agentId)) a) a
           = Some (p\<lparr>killed := True, signals := signals p @ [SIGTERM]\<rparr>)"
  using assms
  by (auto simp: stop_monitoring_def Let_def force_kill_timer_def kill_def split: option.splits if_splits)

text \<open>
  Claim C7 at a failing input: stopping a running agent whose two updates were polled. The
  monitor and the update array are removed, the watermark of the agent stays in
  \<^verbatim>\<open>sentUpdateIndices\<close>, and when the timer runs the process, which has not exited, has
  received SIGTERM only.
\<close>

theorem stop_leaves_watermark:
  "fst (stop_monitoring two_polled_server None (Some agentA)) = Stop_200 agentA
   \<and> monitorUpdates (snd (stop_monitoring two_polled_server None (Some agentA))) agentA = None
   \<and> sentUpdateIndices (snd (stop_monitoring two_polled_server None (Some agentA))) agentA = Some 1
   \<and> map_option signals
        (processes (force_kill_timer (snd (stop_monitoring two_polled_server None (Some agentA))) agentA)
           agentA) = Some [SIGTERM]
   \<and> map_option exited
        (processes (force_kill_timer (snd (stop_monitoring two_polled_server None (Some agentA))) agentA)
           agentA) = Some False"
  by code_simp


end
